theory Spec2Isabelle
  imports Complex_Main "HOL-Library.AList" "HOL-Library.Log_Nat"
begin

section \<open>Data model of \<^verbatim>\<open>streamlit_app.py\<close>\<close>

text \<open>
  The application keeps one nested dictionary, \<^verbatim>\<open>st.session_state.teams\<close>:
  team name \<open>\<rightarrow>\<close> \<^verbatim>\<open>{"members": {member: {skill: level}}, "skills": {category: [skill]}}\<close>.
  Python dictionaries keep insertion order and the export and the charts depend on it,
  so a dictionary is an association list whose keys are distinct: \<open>map_of\<close> is
  \<^verbatim>\<open>d[k]\<close> (\<open>None\<close> where Python raises \<^verbatim>\<open>KeyError\<close>), \<open>AList.update\<close> is
  \<^verbatim>\<open>d[k] = v\<close> (an existing key keeps its position, a new key goes to the end) and
  \<open>AList.delete\<close> is \<^verbatim>\<open>del d[k]\<close>.

  Strings are \<open>string\<close>: lists of 8-bit characters, read as the code points below 256.
\<close>

type_synonym ('k, 'v) dict = "('k \<times> 'v) list"

definition dict_keys :: "('k, 'v) dict \<Rightarrow> 'k list" where
  "dict_keys d = map fst d"

definition dict_in :: "'k \<Rightarrow> ('k, 'v) dict \<Rightarrow> bool" where
  "dict_in k d = (k \<in> set (dict_keys d))"

text \<open>The representation invariant of a Python dictionary: no key occurs twice.\<close>

definition dict_ok :: "('k, 'v) dict \<Rightarrow> bool" where
  "dict_ok d = distinct (dict_keys d)"

type_synonym member_skills = "(string, int) dict"

type_synonym members_dict = "(string, member_skills) dict"

record team_data =
  members :: members_dict
  skills :: "(string, string list) dict"

type_synonym teams_dict = "(string, team_data) dict"

datatype py_error = KeyError | StreamlitDuplicateElementKey string

text \<open>
  \<^verbatim>\<open>st.success\<close>, \<^verbatim>\<open>st.warning\<close> and \<^verbatim>\<open>st.error\<close> are the three ways the
  code reports to the user. The text of each report is an f-string; the model keeps
  which report it is and the values interpolated into it.
\<close>

datatype severity = Success | Warning | Error

datatype notice =
    Team_added string
  | Team_exists string
  | Invalid_team_name
  | Members_added string "string list"
  | Invalid_member_names
  | Skills_added string string "string list"
  | Invalid_skill_names string
  | No_skills_added string
  | Cannot_create_chart string string
  | Skill_count_out_of_range string nat

type_synonym message = "severity \<times> notice"

definition init_session_state :: "teams_dict option \<Rightarrow> teams_dict" where
  "init_session_state ss = (case ss of None \<Rightarrow> [] | Some ts \<Rightarrow> ts)"

definition DEFAULT_SKILLS :: "(string, string list) dict" where
  "DEFAULT_SKILLS =
     [(''Technical'', [''Databricks'', ''Python'', ''NodeJS'', ''SQL'', ''Gitlab'']),
      (''Domain'', [''LM'', ''SM'', ''in vitro'', ''in vivo'', ''target'']),
      (''Operational'', [''SAFe'', ''Collab'', ''Comms'', ''SNOW'', ''Monitoring and Tracking''])]"

section \<open>Adding a team\<close>

text \<open>
  \<^verbatim>\<open>add_team\<close>: \<open>team_name\<close> is what \<^verbatim>\<open>st.text_input\<close> returns and \<open>button\<close> what
  \<^verbatim>\<open>st.button("Add Team")\<close> returns. The dictionary comprehension over
  \<^verbatim>\<open>DEFAULT_SKILLS.items()\<close> inserts the categories one by one; \<^verbatim>\<open>skills.copy()\<close>
  is the list itself, values being immutable here.
\<close>

definition default_skills_copy :: "(string, string list) dict" where
  "default_skills_copy =
     foldl (\<lambda>d (category, skills). AList.update category skills d) [] DEFAULT_SKILLS"

definition add_team :: "string \<Rightarrow> bool \<Rightarrow> teams_dict \<Rightarrow> message list \<times> teams_dict" where
  "add_team team_name button ts =
     (if button then
        (if team_name \<noteq> [] \<and> \<not> dict_in team_name ts then
           ([(Success, Team_added team_name)],
            AList.update team_name \<lparr>members = [], skills = default_skills_copy\<rparr> ts)
         else if dict_in team_name ts then ([(Warning, Team_exists team_name)], ts)
         else ([(Error, Invalid_team_name)], ts))
      else ([], ts))"

section \<open>Parsing a list of names\<close>

text \<open>
  \<^verbatim>\<open>[m.strip() for m in text.replace("\n", ",").split(",") if m.strip()]\<close>.
  \<^verbatim>\<open>str.strip()\<close> removes the characters for which \<^verbatim>\<open>str.isspace\<close> holds from both
  ends; below code point 256 these are 9 to 13, 28 to 32, 133 and 160.
\<close>

definition isspace :: "char \<Rightarrow> bool" where
  "isspace c = (let n = (of_char c :: nat) in
     (9 \<le> n \<and> n \<le> 13) \<or> (28 \<le> n \<and> n \<le> 32) \<or> n = 133 \<or> n = 160)"

definition strip :: "string \<Rightarrow> string" where
  "strip s = rev (dropWhile isspace (rev (dropWhile isspace s)))"

definition replace_char :: "char \<Rightarrow> char \<Rightarrow> string \<Rightarrow> string" where
  "replace_char old new s = map (\<lambda>c. if c = old then new else c) s"

text \<open>\<^verbatim>\<open>s.split(sep)\<close> for a one-character separator: \<open>acc\<close> is the current piece, reversed.\<close>

fun split_acc :: "char \<Rightarrow> string \<Rightarrow> string \<Rightarrow> string list" where
  "split_acc sep acc [] = [rev acc]"
| "split_acc sep acc (c # cs) =
     (if c = sep then rev acc # split_acc sep [] cs else split_acc sep (c # acc) cs)"

definition split :: "char \<Rightarrow> string \<Rightarrow> string list" where
  "split sep s = split_acc sep [] s"

definition parse_names :: "string \<Rightarrow> string list" where
  "parse_names text =
     [strip m. m \<leftarrow> split CHR '','' (replace_char CHR 0x0A CHR '','' text), strip m \<noteq> []]"

section \<open>Adding members\<close>

text \<open>
  \<^verbatim>\<open>add_members\<close>: the loop over the parsed names. Each iteration that passes the
  test \<^verbatim>\<open>member_name and ...\<close> reads \<^verbatim>\<open>teams[team_name]\<close>, which raises
  \<^verbatim>\<open>KeyError\<close> for an unknown team; the assignment stores an empty dictionary in the
  team's own members dictionary, so the team keeps its place in \<^verbatim>\<open>teams\<close>.
\<close>

fun add_members_loop :: "string \<Rightarrow> string list \<Rightarrow> teams_dict \<Rightarrow> py_error + teams_dict" where
  "add_members_loop team_name [] ts = Inr ts"
| "add_members_loop team_name (member_name # rest) ts =
     (if member_name \<noteq> [] then
        (case map_of ts team_name of
           None \<Rightarrow> Inl KeyError
         | Some td \<Rightarrow>
             if \<not> dict_in member_name (members td) then
               add_members_loop team_name rest
                 (AList.update team_name
                    (td\<lparr>members := AList.update member_name [] (members td)\<rparr>) ts)
             else add_members_loop team_name rest ts)
      else add_members_loop team_name rest ts)"

definition add_members ::
  "string \<Rightarrow> string \<Rightarrow> bool \<Rightarrow> teams_dict \<Rightarrow> py_error + (message list \<times> teams_dict)" where
  "add_members team_name members_input button ts =
     (if button then
        (if members_input \<noteq> [] then
           (let names = parse_names members_input in
            case add_members_loop team_name names ts of
              Inl e \<Rightarrow> Inl e
            | Inr ts' \<Rightarrow> Inr ([(Success, Members_added team_name names)], ts'))
         else Inr ([(Error, Invalid_member_names)], ts))
      else Inr ([], ts))"

section \<open>Adding skills\<close>

text \<open>
  \<^verbatim>\<open>add_skills\<close> shows one text area and one button per category; \<open>ui category\<close> is
  the pair of what they return. \<^verbatim>\<open>append\<close> extends the category's list in place.
\<close>

fun add_skills_loop ::
  "string \<Rightarrow> string \<Rightarrow> string list \<Rightarrow> teams_dict \<Rightarrow> py_error + teams_dict" where
  "add_skills_loop team_name category [] ts = Inr ts"
| "add_skills_loop team_name category (skill_name # rest) ts =
     (if skill_name \<noteq> [] then
        (case map_of ts team_name of
           None \<Rightarrow> Inl KeyError
         | Some td \<Rightarrow>
            (case map_of (skills td) category of
               None \<Rightarrow> Inl KeyError
             | Some names \<Rightarrow>
                 if skill_name \<notin> set names then
                   add_skills_loop team_name category rest
                     (AList.update team_name
                        (td\<lparr>skills := AList.update category (names @ [skill_name]) (skills td)\<rparr>) ts)
                 else add_skills_loop team_name category rest ts))
      else add_skills_loop team_name category rest ts)"

definition add_skills_category ::
  "string \<Rightarrow> string \<Rightarrow> string \<Rightarrow> bool \<Rightarrow> teams_dict \<Rightarrow> py_error + (message list \<times> teams_dict)" where
  "add_skills_category team_name category skills_input button ts =
     (if button then
        (if skills_input \<noteq> [] then
           (let names = parse_names skills_input in
            case add_skills_loop team_name category names ts of
              Inl e \<Rightarrow> Inl e
            | Inr ts' \<Rightarrow> Inr ([(Success, Skills_added category team_name names)], ts'))
         else Inr ([(Error, Invalid_skill_names category)], ts))
      else Inr ([], ts))"

fun add_skills_categories ::
  "string \<Rightarrow> (string \<Rightarrow> string \<times> bool) \<Rightarrow> string list \<Rightarrow> teams_dict
     \<Rightarrow> py_error + (message list \<times> teams_dict)" where
  "add_skills_categories team_name ui [] ts = Inr ([], ts)"
| "add_skills_categories team_name ui (category # rest) ts =
     (case add_skills_category team_name category (fst (ui category)) (snd (ui category)) ts of
        Inl e \<Rightarrow> Inl e
      | Inr (msgs, ts') \<Rightarrow>
         (case add_skills_categories team_name ui rest ts' of
            Inl e \<Rightarrow> Inl e
          | Inr (msgs', ts'') \<Rightarrow> Inr (msgs @ msgs', ts'')))"

definition add_skills ::
  "string \<Rightarrow> (string \<Rightarrow> string \<times> bool) \<Rightarrow> teams_dict \<Rightarrow> py_error + (message list \<times> teams_dict)" where
  "add_skills team_name ui ts =
     add_skills_categories team_name ui [''Technical'', ''Domain'', ''Operational''] ts"

section \<open>Assigning competency levels\<close>

text \<open>
  \<^verbatim>\<open>st.slider\<close> belongs to the Streamlit library. A widget created with a key
  registers the key for the current run of the script, and creating a widget under a key
  that is already registered in this run raises \<^verbatim>\<open>StreamlitDuplicateElementKey\<close>.
  \<open>used\<close> is the list of the keys registered so far in the run: those of the text
  inputs and text areas created before the call, and those of the sliders created
  before. The value that the widget returns is a parameter \<open>slider\<close> of the model,
  applied to \<^verbatim>\<open>min_value\<close>, \<^verbatim>\<open>max_value\<close> and the key; what the library promises
  about it is \<open>slider_in_range\<close>: the value lies between the two bounds.
  The widget key is the f-string \<^verbatim>\<open>f"{team_name}_{member_name}_{skill}"\<close>.
  \<^verbatim>\<open>st.subheader\<close> only draws and is left out.
\<close>

type_synonym slider = "int \<Rightarrow> int \<Rightarrow> string \<Rightarrow> int"

definition slider_in_range :: "slider \<Rightarrow> bool" where
  "slider_in_range slider =
     (\<forall>lo hi key. lo \<le> hi \<longrightarrow> lo \<le> slider lo hi key \<and> slider lo hi key \<le> hi)"

definition slider_key :: "string \<Rightarrow> string \<Rightarrow> string \<Rightarrow> string" where
  "slider_key team_name member_name skill = team_name @ ''_'' @ member_name @ ''_'' @ skill"

definition st_slider ::
  "slider \<Rightarrow> int \<Rightarrow> int \<Rightarrow> string \<Rightarrow> string list \<Rightarrow> py_error + int \<times> string list" where
  "st_slider slider min_value max_value key used =
     (if key \<in> set used then Inl (StreamlitDuplicateElementKey key)
      else Inr (slider min_value max_value key, key # used))"

text \<open>\<^verbatim>\<open>members[member_name][skill] = level\<close> on the team's members dictionary.\<close>

definition set_level :: "string \<Rightarrow> string \<Rightarrow> int \<Rightarrow> members_dict \<Rightarrow> py_error + members_dict" where
  "set_level member_name skill level ms =
     (case map_of ms member_name of
        None \<Rightarrow> Inl KeyError
      | Some sk \<Rightarrow> Inr (AList.update member_name (AList.update skill level sk) ms))"

text \<open>
  The three loops. An exception ends the run of the script, but what the loops have
  stored before it stays in the session state: a result \<open>Inl\<close> carries the exception
  and the members dictionary at the raise, a result \<open>Inr\<close> the members dictionary and
  the keys registered at the end.
\<close>

fun assign_members ::
  "slider \<Rightarrow> string \<Rightarrow> string \<Rightarrow> string list \<Rightarrow> string list \<Rightarrow> members_dict
     \<Rightarrow> py_error \<times> members_dict + members_dict \<times> string list" where
  "assign_members slider team_name skill [] used ms = Inr (ms, used)"
| "assign_members slider team_name skill (member_name # rest) used ms =
     (case st_slider slider 0 10 (slider_key team_name member_name skill) used of
        Inl e \<Rightarrow> Inl (e, ms)
      | Inr (level, used') \<Rightarrow>
         (case set_level member_name skill level ms of
            Inl e \<Rightarrow> Inl (e, ms)
          | Inr ms' \<Rightarrow> assign_members slider team_name skill rest used' ms'))"

fun assign_skills ::
  "slider \<Rightarrow> string \<Rightarrow> string list \<Rightarrow> string list \<Rightarrow> members_dict
     \<Rightarrow> py_error \<times> members_dict + members_dict \<times> string list" where
  "assign_skills slider team_name [] used ms = Inr (ms, used)"
| "assign_skills slider team_name (skill # rest) used ms =
     (case assign_members slider team_name skill (dict_keys ms) used ms of
        Inl raised \<Rightarrow> Inl raised
      | Inr (ms', used') \<Rightarrow> assign_skills slider team_name rest used' ms')"

fun assign_categories ::
  "slider \<Rightarrow> string \<Rightarrow> (string, string list) dict \<Rightarrow> string list \<Rightarrow> members_dict
     \<Rightarrow> py_error \<times> members_dict + members_dict \<times> string list" where
  "assign_categories slider team_name [] used ms = Inr (ms, used)"
| "assign_categories slider team_name ((category, names) # rest) used ms =
     (case assign_skills slider team_name names used ms of
        Inl raised \<Rightarrow> Inl raised
      | Inr (ms', used') \<Rightarrow> assign_categories slider team_name rest used' ms')"

text \<open>
  \<^verbatim>\<open>assign_competency\<close>: \<^verbatim>\<open>any(d.values())\<close> holds when some category's list is not
  empty. The loops change only the members dictionary of \<^verbatim>\<open>teams[team_name]\<close>, an
  object the function reads once; the changed team is written back at its place, also
  when the loops end with an exception.
\<close>

definition assign_competency ::
  "slider \<Rightarrow> string \<Rightarrow> string list \<Rightarrow> teams_dict
     \<Rightarrow> py_error \<times> teams_dict + message list \<times> teams_dict \<times> string list" where
  "assign_competency slider team_name used ts =
     (case map_of ts team_name of
        None \<Rightarrow> Inl (KeyError, ts)
      | Some td \<Rightarrow>
          if \<not> list_ex (\<lambda>names. names \<noteq> []) (map snd (skills td)) then
            Inr ([(Warning, No_skills_added team_name)], ts, used)
          else
            (case assign_categories slider team_name (skills td) used (members td) of
               Inl (e, ms') \<Rightarrow> Inl (e, AList.update team_name (td\<lparr>members := ms'\<rparr>) ts)
             | Inr (ms', used') \<Rightarrow>
                 Inr ([], AList.update team_name (td\<lparr>members := ms'\<rparr>) ts, used')))"

section \<open>Deleting a team\<close>

text \<open>
  The "Delete" button of \<^verbatim>\<open>manage_teams\<close>: \<^verbatim>\<open>del st.session_state.teams[team_name]\<close>,
  which raises \<^verbatim>\<open>KeyError\<close> for a name that is not a key.
\<close>

definition delete_team :: "string \<Rightarrow> teams_dict \<Rightarrow> py_error + teams_dict" where
  "delete_team team_name ts =
     (if dict_in team_name ts then Inr (AList.delete team_name ts) else Inl KeyError)"

section \<open>Radar chart of a category\<close>

text \<open>
  The list comprehension of \<^verbatim>\<open>display_category_radar_chart\<close>: the levels of the
  members that have an entry for \<open>skill\<close>, in the order of the members dictionary.
  Iterating the dictionary yields its keys, and each key is looked up again.
\<close>

definition competencies_of :: "members_dict \<Rightarrow> string \<Rightarrow> int list" where
  "competencies_of ms skill =
     concat (map (\<lambda>member.
        case map_of ms member of
          None \<Rightarrow> []
        | Some sk \<Rightarrow> (case map_of sk skill of None \<Rightarrow> [] | Some level \<Rightarrow> [level]))
      (dict_keys ms))"

text \<open>
  \<^verbatim>\<open>sum(c) / len(c)\<close> is Python's true division of two integers, here by a length
  that is not zero. Its result is a \<^verbatim>\<open>float\<close>, an IEEE 754 double: the double nearest
  to the exact quotient, a tie going to the even significand. A finite double is
  modelled by its value, a rational number \<open>m * 2 ^ k\<close> with \<open>\<bar>m\<bar> \<le> 2 ^ 53\<close> and
  \<open>k \<ge> - 1074\<close>.

  \<open>floor_log2 x\<close> is the binary exponent of a positive \<open>x\<close>, read from the bit lengths
  of its numerator and denominator; \<open>double_ulp x\<close> is the spacing of the doubles
  around \<open>x\<close>, 53 significant bits down to the subnormal spacing \<open>2 ^ - 1074\<close>.
  The exponent has no upper end in the model: CPython raises \<^verbatim>\<open>OverflowError\<close> for a
  quotient of \<open>2 ^ 1024\<close> or more, the model rounds it as any other. The quotients
  taken by the application are averages of stored levels; in every state within reach
  they lie between 0 and 10 (\<open>reachable_average_bounds\<close> below).
\<close>

type_synonym py_float = rat

definition round_half_even :: "rat \<Rightarrow> int" where
  "round_half_even x =
     (let f = \<lfloor>x\<rfloor>; r = x - of_int f in
      if r < 1 / 2 then f else if 1 / 2 < r then f + 1 else if even f then f else f + 1)"

definition floor_log2 :: "rat \<Rightarrow> int" where
  "floor_log2 x =
     (let (n, d) = quotient_of x; k = bitlen n - bitlen d in
      if 2 powi k \<le> x then k else k - 1)"

definition double_ulp :: "rat \<Rightarrow> rat" where
  "double_ulp x = 2 powi (max (floor_log2 \<bar>x\<bar> - 52) (- 1074))"

definition round_to_double :: "rat \<Rightarrow> py_float" where
  "round_to_double x =
     (if x = 0 then 0 else of_int (round_half_even (x / double_ulp x)) * double_ulp x)"

text \<open>
  \<^verbatim>\<open>skill_stats\<close> is a dictionary of four lists that grow together. \<^verbatim>\<open>min\<close> and
  \<^verbatim>\<open>max\<close> run over the list from its first element; the average is the true
  division of the integer sum by the length.
\<close>

record skill_stats =
  stat_Skill :: "string list"
  stat_Min :: "int list"
  stat_Max :: "int list"
  stat_Average :: "py_float list"

definition add_skill_stats :: "members_dict \<Rightarrow> skill_stats \<Rightarrow> string \<Rightarrow> skill_stats" where
  "add_skill_stats ms st skill =
     (case competencies_of ms skill of
        [] \<Rightarrow> st
      | c # cs \<Rightarrow>
          \<lparr>stat_Skill = stat_Skill st @ [skill],
           stat_Min = stat_Min st @ [fold min cs c],
           stat_Max = stat_Max st @ [fold max cs c],
           stat_Average = stat_Average st @
             [round_to_double (of_int (sum_list (c # cs)) / of_nat (length (c # cs)))]\<rparr>)"

definition skill_stats_of :: "members_dict \<Rightarrow> string list \<Rightarrow> skill_stats" where
  "skill_stats_of ms names =
     foldl (add_skill_stats ms)
       \<lparr>stat_Skill = [], stat_Min = [], stat_Max = [], stat_Average = []\<rparr> names"

text \<open>
  The figure: three \<^verbatim>\<open>Scatterpolar\<close> traces over the same \<^verbatim>\<open>theta\<close>, and the two
  values interpolated into the title.
\<close>

record figure =
  theta :: "string list"
  r_Min :: "int list"
  r_Max :: "int list"
  r_Average :: "py_float list"
  title_category :: string
  title_team :: string

definition display_category_radar_chart ::
  "string \<Rightarrow> string \<Rightarrow> teams_dict \<Rightarrow> py_error + (message list \<times> figure option)" where
  "display_category_radar_chart team_name category ts =
     (case map_of ts team_name of
        None \<Rightarrow> Inl KeyError
      | Some team_data \<Rightarrow>
          (let names = (case map_of (skills team_data) category of None \<Rightarrow> [] | Some l \<Rightarrow> l) in
           if names = [] \<or> members team_data = [] then
             Inr ([(Warning, Cannot_create_chart category team_name)], None)
           else
             (let st = skill_stats_of (members team_data) names in
              if length (stat_Skill st) < 5 \<or> length (stat_Skill st) > 8 then
                Inr ([(Warning, Skill_count_out_of_range category (length (stat_Skill st)))], None)
              else
                Inr ([], Some \<lparr>theta = stat_Skill st, r_Min = stat_Min st, r_Max = stat_Max st,
                               r_Average = stat_Average st,
                               title_category = category, title_team = team_name\<rparr>))))"

section \<open>Export\<close>

text \<open>
  \<^verbatim>\<open>export_data\<close>: three nested loops over \<^verbatim>\<open>.items()\<close>, each appending to
  \<^verbatim>\<open>all_data\<close>. The result is the list of rows handed to \<^verbatim>\<open>pd.DataFrame\<close>.
\<close>

record export_row =
  Team :: string
  Member :: string
  Skill :: string
  Competency_Level :: int

definition export_skills ::
  "string \<Rightarrow> string \<Rightarrow> export_row list \<Rightarrow> member_skills \<Rightarrow> export_row list" where
  "export_skills team_name member_name all_data sk =
     foldl (\<lambda>acc (skill, level).
        acc @ [\<lparr>Team = team_name, Member = member_name, Skill = skill,
                 Competency_Level = level\<rparr>]) all_data sk"

definition export_members :: "string \<Rightarrow> export_row list \<Rightarrow> members_dict \<Rightarrow> export_row list" where
  "export_members team_name all_data ms =
     foldl (\<lambda>acc (member_name, sk). export_skills team_name member_name acc sk) all_data ms"

definition export_data :: "teams_dict \<Rightarrow> export_row list" where
  "export_data ts =
     foldl (\<lambda>acc (team_name, team_data). export_members team_name acc (members team_data)) [] ts"

section \<open>Notions of the properties\<close>

text \<open>
  The level a member has recorded for a skill, if any, and the levels recorded for a
  skill by the members that have an entry for it, in the order of the members.
\<close>

definition recorded_level :: "members_dict \<Rightarrow> string \<Rightarrow> string \<Rightarrow> int option" where
  "recorded_level ms skill member =
     (case map_of ms member of None \<Rightarrow> None | Some sk \<Rightarrow> map_of sk skill)"

definition recorded_levels :: "members_dict \<Rightarrow> string \<Rightarrow> int list" where
  "recorded_levels ms skill = List.map_filter (recorded_level ms skill) (dict_keys ms)"

text \<open>The arithmetic average of a list of levels: the exact sum divided by the count.\<close>

definition exact_average :: "int list \<Rightarrow> rat" where
  "exact_average levels = of_int (sum_list levels) / of_nat (length levels)"

text \<open>The skills of a list with at least one contributing member, in the list's order.\<close>

definition scored_skills :: "members_dict \<Rightarrow> string list \<Rightarrow> string list" where
  "scored_skills ms names = filter (\<lambda>skill. recorded_levels ms skill \<noteq> []) names"

text \<open>
  The skill list of a category as the chart function reads it
  (\<^verbatim>\<open>team_data["skills"].get(category, [])\<close>), the number of eligible skills of a
  category (those with at least one recorded level), and the count that a notice reports.
\<close>

definition category_skills :: "team_data \<Rightarrow> string \<Rightarrow> string list" where
  "category_skills td category =
     (case map_of (skills td) category of None \<Rightarrow> [] | Some l \<Rightarrow> l)"

definition eligible_count :: "team_data \<Rightarrow> string \<Rightarrow> nat" where
  "eligible_count td category = length (scored_skills (members td) (category_skills td category))"

fun reported_count :: "notice \<Rightarrow> nat option" where
  "reported_count (Skill_count_out_of_range category n) = Some n"
| "reported_count _ = None"

text \<open>
  The invariant of the whole state: the teams dictionary, every members dictionary and
  every member's dictionary of levels are dictionaries.
\<close>

definition teams_ok :: "teams_dict \<Rightarrow> bool" where
  "teams_ok ts =
     (dict_ok ts \<and>
      list_all (\<lambda>(team_name, td).
        dict_ok (members td) \<and> list_all (\<lambda>(member_name, sk). dict_ok sk) (members td)) ts)"

text \<open>
  The sparse score mapping of a state: the level recorded under a team, a member of the
  team and a skill.
\<close>

definition score_of :: "teams_dict \<Rightarrow> string \<times> string \<times> string \<Rightarrow> int option" where
  "score_of ts key =
     (case key of (team_name, member_name, skill) \<Rightarrow>
        (case map_of ts team_name of
           None \<Rightarrow> None
         | Some td \<Rightarrow> recorded_level (members td) skill member_name))"

text \<open>
  Re-grouping exported rows by (team, member, skill), in the words of the specification:
  \<open>levels_at\<close> is the group of a key, the levels of the rows that carry it, and
  \<open>regroup\<close> is the mapping from the keys of the rows to their levels.
\<close>

definition row_key :: "export_row \<Rightarrow> string \<times> string \<times> string" where
  "row_key r = (Team r, Member r, Skill r)"

definition levels_at :: "string \<times> string \<times> string \<Rightarrow> export_row list \<Rightarrow> int list" where
  "levels_at key rows = map Competency_Level (filter (\<lambda>r. row_key r = key) rows)"

definition regroup :: "export_row list \<Rightarrow> string \<times> string \<times> string \<Rightarrow> int option" where
  "regroup rows = map_of (map (\<lambda>r. (row_key r, Competency_Level r)) rows)"

text \<open>The rows of the export written as a comprehension: teams, then members, then skills.\<close>

definition skill_rows :: "string \<Rightarrow> string \<Rightarrow> member_skills \<Rightarrow> export_row list" where
  "skill_rows team_name member_name sk =
     map (\<lambda>(skill, level). \<lparr>Team = team_name, Member = member_name, Skill = skill,
            Competency_Level = level\<rparr>) sk"

definition member_rows :: "string \<Rightarrow> members_dict \<Rightarrow> export_row list" where
  "member_rows team_name ms =
     concat (map (\<lambda>(member_name, sk). skill_rows team_name member_name sk) ms)"

definition team_rows :: "teams_dict \<Rightarrow> export_row list" where
  "team_rows ts = concat (map (\<lambda>(team_name, td). member_rows team_name (members td)) ts)"

text \<open>
  Every level stored anywhere in the state lies between 0 and 10.
\<close>

definition skills_in_range :: "member_skills \<Rightarrow> bool" where
  "skills_in_range sk = list_all (\<lambda>(skill, level). 0 \<le> level \<and> level \<le> 10) sk"

definition levels_in_range :: "teams_dict \<Rightarrow> bool" where
  "levels_in_range ts =
     list_all (\<lambda>(team_name, td).
       list_all (\<lambda>(member_name, sk). skills_in_range sk) (members td)) ts"

text \<open>
  The states that a session can reach: it starts from the empty dictionary of teams, and
  each interaction is one of the operations, completed without an exception, or an
  assignment of competencies that a slider has ended with an exception; a slider returns
  what the library promises.
\<close>

inductive reachable :: "teams_dict \<Rightarrow> bool" where
  start: "reachable (init_session_state None)"
| team_added: "reachable ts \<Longrightarrow> reachable (snd (add_team team_name button ts))"
| members_added:
    "reachable ts \<Longrightarrow> add_members team_name members_input button ts = Inr (msgs, ts')
       \<Longrightarrow> reachable ts'"
| skills_added:
    "reachable ts \<Longrightarrow> add_skills team_name ui ts = Inr (msgs, ts') \<Longrightarrow> reachable ts'"
| competency_assigned:
    "reachable ts \<Longrightarrow> slider_in_range slider
       \<Longrightarrow> assign_competency slider team_name used ts = Inr (msgs, ts', used')
       \<Longrightarrow> reachable ts'"
| assignment_raised:
    "reachable ts \<Longrightarrow> slider_in_range slider
       \<Longrightarrow> assign_competency slider team_name used ts = Inl (e, ts') \<Longrightarrow> reachable ts'"
| team_deleted: "reachable ts \<Longrightarrow> delete_team team_name ts = Inr ts' \<Longrightarrow> reachable ts'"

text \<open>
  The slider keys that an assignment of competencies creates for a team, in the order of
  the loops: category by category, skill by skill, member by member.
\<close>

definition assignment_keys :: "string \<Rightarrow> team_data \<Rightarrow> string list" where
  "assignment_keys team_name td =
     concat (map (\<lambda>skill. map (\<lambda>member_name. slider_key team_name member_name skill)
                                (dict_keys (members td)))
                 (concat (map snd (skills td))))"

text \<open>The state that an assignment leaves, whether it ran to its end or raised.\<close>

definition members_after ::
  "py_error \<times> members_dict + members_dict \<times> string list \<Rightarrow> members_dict" where
  "members_after r = (case r of Inl (e, ms) \<Rightarrow> ms | Inr (ms, used) \<Rightarrow> ms)"

definition teams_after ::
  "py_error \<times> teams_dict + message list \<times> teams_dict \<times> string list \<Rightarrow> teams_dict" where
  "teams_after r = (case r of Inl (e, ts) \<Rightarrow> ts | Inr (msgs, ts, used) \<Rightarrow> ts)"

text \<open>The two invariants together, level by level, as the proofs carry them.\<close>

definition skills_inv :: "member_skills \<Rightarrow> bool" where
  "skills_inv sk = (dict_ok sk \<and> skills_in_range sk)"

definition members_inv :: "members_dict \<Rightarrow> bool" where
  "members_inv ms = (dict_ok ms \<and> list_all (\<lambda>(member_name, sk). skills_inv sk) ms)"

definition state_inv :: "teams_dict \<Rightarrow> bool" where
  "state_inv ts = (dict_ok ts \<and> list_all (\<lambda>(team_name, td). members_inv (members td)) ts)"

section \<open>Facts about dictionaries\<close>

lemma update_fresh: "k \<notin> fst ` set al \<Longrightarrow> AList.update k v al = al @ [(k, v)]"
  by (induction al) auto

lemma default_skills_copy_eq: "default_skills_copy = DEFAULT_SKILLS"
  by (simp add: default_skills_copy_def DEFAULT_SKILLS_def)

section \<open>Creating teams\<close>

text \<open>
  C6. Adding a team under a valid (non-empty) name that is not yet a key reports success
  and appends one team to the dictionary: the name then occurs exactly once among the
  keys, its team has no members and its skills are the three default categories
  Technical, Domain and Operational, in this order, with their default lists. The teams
  that were there before are unchanged.
\<close>

theorem add_team_new:
  assumes "team_name \<noteq> []" and "\<not> dict_in team_name ts"
  shows "add_team team_name True ts =
           ([(Success, Team_added team_name)],
            ts @ [(team_name, \<lparr>members = [], skills = DEFAULT_SKILLS\<rparr>)])
         \<and> count_list (dict_keys (snd (add_team team_name True ts))) team_name = 1
         \<and> map_of (snd (add_team team_name True ts)) team_name
             = Some \<lparr>members = [], skills = DEFAULT_SKILLS\<rparr>
         \<and> dict_keys DEFAULT_SKILLS = [''Technical'', ''Domain'', ''Operational'']"
proof -
  from assms(2) have fresh: "team_name \<notin> fst ` set ts"
    by (simp add: dict_in_def dict_keys_def)
  have step: "add_team team_name True ts =
           ([(Success, Team_added team_name)],
            ts @ [(team_name, \<lparr>members = [], skills = DEFAULT_SKILLS\<rparr>)])"
    using assms fresh by (simp add: add_team_def update_fresh default_skills_copy_eq)
  have cnt: "count_list (map fst ts) team_name = 0"
    using fresh by (simp add: count_list_0_iff)
  have look: "map_of ts team_name = None"
    using fresh by (simp add: map_of_eq_None_iff)
  show ?thesis
    using cnt look by (simp add: step dict_keys_def DEFAULT_SKILLS_def map_add_def)
qed

theorem add_team_new_witness:
  "''Alpha'' \<noteq> [] \<and> \<not> dict_in ''Alpha'' ([] :: teams_dict) \<and>
   add_team ''Alpha'' True [] =
     ([(Success, Team_added ''Alpha'')], [(''Alpha'', \<lparr>members = [], skills = DEFAULT_SKILLS\<rparr>)])"
  using add_team_new [of "''Alpha''" "[]"] by (simp add: dict_in_def dict_keys_def)

text \<open>
  C7. Adding a team under a name that is already a key reports the warning that the team
  exists and returns the dictionary as it was: every team, with its members, skills
  and levels, is what it was before.
\<close>

theorem add_team_duplicate:
  "dict_in team_name ts \<Longrightarrow>
     add_team team_name True ts = ([(Warning, Team_exists team_name)], ts)"
  by (simp add: add_team_def)

theorem add_team_duplicate_witness:
  "dict_in ''Alpha'' [(''Alpha'', \<lparr>members = [(''Ana'', [(''Python'', 7)])], skills = DEFAULT_SKILLS\<rparr>)]
   \<and> add_team ''Alpha'' True
        [(''Alpha'', \<lparr>members = [(''Ana'', [(''Python'', 7)])], skills = DEFAULT_SKILLS\<rparr>)]
      = ([(Warning, Team_exists ''Alpha'')],
         [(''Alpha'', \<lparr>members = [(''Ana'', [(''Python'', 7)])], skills = DEFAULT_SKILLS\<rparr>)])"
  using add_team_duplicate
    [of "''Alpha''" "[(''Alpha'', \<lparr>members = [(''Ana'', [(''Python'', 7)])], skills = DEFAULT_SKILLS\<rparr>)]"]
  by (simp add: dict_in_def dict_keys_def)

section \<open>Rounding to a double\<close>

lemma round_half_even_near: "\<bar>of_int (round_half_even x) - x\<bar> \<le> 1 / 2"
proof -
  have "of_int \<lfloor>x\<rfloor> \<le> x" "x < of_int \<lfloor>x\<rfloor> + 1" by linarith+
  then show ?thesis
    by (auto simp: round_half_even_def Let_def abs_le_iff)
qed

lemma round_half_even_of_int: "round_half_even (of_int n) = n"
  by (simp add: round_half_even_def)

lemma pow2_int_rat: "0 \<le> k \<Longrightarrow> (2::rat) powi k = of_int (2 ^ nat k)"
  by (simp add: power_int_def)

lemma floor_log2_bounds:
  assumes "0 < x"
  shows "2 powi floor_log2 x \<le> x \<and> x < 2 powi (floor_log2 x + 1)"
proof -
  obtain n d where q: "quotient_of x = (n, d)" by (cases "quotient_of x")
  then have d: "0 < d" and x: "x = of_int n / of_int d"
    by (simp_all add: quotient_of_denom_pos quotient_of_div)
  from assms x d have n: "0 < n"
    by (simp add: zero_less_divide_iff)
  let ?bn = "bitlen n" and ?bd = "bitlen d"
  let ?k = "?bn - ?bd"
  from bitlen_bounds [OF n] have n1: "2 ^ nat (?bn - 1) \<le> n" and n2: "n < 2 ^ nat ?bn" by simp_all
  from bitlen_bounds [OF d] have d1: "2 ^ nat (?bd - 1) \<le> d" and d2: "d < 2 ^ nat ?bd" by simp_all
  have bn: "1 \<le> ?bn" using n bitlen_eq_zero_iff [of n] bitlen_nonneg [of n] by linarith
  have bd: "1 \<le> ?bd" using d bitlen_eq_zero_iff [of d] bitlen_nonneg [of d] by linarith
  have N1: "(2::rat) powi (?bn - 1) \<le> of_int n"
    using n1 bn by (simp add: pow2_int_rat of_int_le_iff [symmetric] del: of_int_le_iff)
  have N2: "of_int n < (2::rat) powi ?bn"
    using n2 bn by (simp add: pow2_int_rat of_int_less_iff [symmetric] del: of_int_less_iff)
  have D1: "(2::rat) powi (?bd - 1) \<le> of_int d"
    using d1 bd by (simp add: pow2_int_rat of_int_le_iff [symmetric] del: of_int_le_iff)
  have D2: "of_int d < (2::rat) powi ?bd"
    using d2 bd by (simp add: pow2_int_rat of_int_less_iff [symmetric] del: of_int_less_iff)
  have dpos: "(0::rat) < of_int d" using d by simp
  have lower: "(2::rat) powi (?k - 1) \<le> x"
  proof -
    have "(2::rat) powi (?k - 1) * of_int d \<le> 2 powi (?k - 1) * 2 powi ?bd"
      using D2 by (intro mult_left_mono) (simp_all add: less_imp_le)
    also have "\<dots> = 2 powi (?bn - 1)"
      by (simp add: power_int_add [symmetric])
    also have "\<dots> \<le> of_int n" by (rule N1)
    finally show ?thesis using dpos by (simp add: x pos_le_divide_eq)
  qed
  have upper: "x < (2::rat) powi (?k + 1)"
  proof -
    have "of_int n < (2::rat) powi ?bn" by (rule N2)
    also have "\<dots> = 2 powi (?k + 1) * 2 powi (?bd - 1)"
      by (simp add: power_int_add [symmetric])
    also have "\<dots> \<le> 2 powi (?k + 1) * of_int d"
      using D1 by (intro mult_left_mono) simp_all
    finally show ?thesis using dpos by (simp add: x pos_divide_less_eq)
  qed
  show ?thesis
  proof (cases "2 powi ?k \<le> x")
    case True
    then have "floor_log2 x = ?k" by (simp add: floor_log2_def q)
    with True upper show ?thesis by simp
  next
    case False
    then have "floor_log2 x = ?k - 1" by (simp add: floor_log2_def q)
    with False lower show ?thesis by (simp add: not_le)
  qed
qed

lemma double_ulp_pos: "0 < double_ulp x"
  by (simp add: double_ulp_def)

lemma round_to_double_near: "\<bar>round_to_double x - x\<bar> \<le> double_ulp x / 2"
proof (cases "x = 0")
  case True
  then show ?thesis using double_ulp_pos [of x] by (simp add: round_to_double_def)
next
  case False
  let ?u = "double_ulp x"
  have u: "0 < ?u" by (rule double_ulp_pos)
  have "round_to_double x - x = (of_int (round_half_even (x / ?u)) - x / ?u) * ?u"
    using False u by (simp add: round_to_double_def algebra_simps)
  then have "\<bar>round_to_double x - x\<bar> = \<bar>of_int (round_half_even (x / ?u)) - x / ?u\<bar> * ?u"
    using u by (simp add: abs_mult)
  also have "\<dots> \<le> (1 / 2) * ?u"
    using round_half_even_near [of "x / ?u"] u by (intro mult_right_mono) simp_all
  finally show ?thesis by simp
qed

lemma round_to_double_error:
  "\<bar>round_to_double x - x\<bar> \<le> max (\<bar>x\<bar> / 2 ^ 53) (2 powi (- 1075))"
proof (cases "x = 0")
  case True
  then have "round_to_double x - x = 0" by (simp add: round_to_double_def)
  moreover have "(0::rat) \<le> \<bar>x\<bar> / 2 ^ 53" by simp
  ultimately show ?thesis by (simp only: abs_zero max.coboundedI1)
next
  case False
  then have pos: "0 < \<bar>x\<bar>" by simp
  let ?e = "floor_log2 \<bar>x\<bar>"
  from floor_log2_bounds [OF pos] have low: "2 powi ?e \<le> \<bar>x\<bar>" by (rule conjunct1)
  show ?thesis
  proof (cases "- 1074 \<le> ?e - 52")
    case True
    then have m: "max (?e - 52) (- 1074) = ?e - 52" by (rule max_absorb1)
    have "double_ulp x / 2 = 2 powi (?e - 52) / 2"
      unfolding double_ulp_def m ..
    also have "\<dots> = 2 powi (?e - 53)"
      using power_int_diff [of "2::rat" "?e - 52" 1] by simp
    also have "\<dots> = 2 powi ?e / 2 ^ 53"
      using power_int_diff [of "2::rat" ?e 53] by simp
    also have "\<dots> \<le> \<bar>x\<bar> / 2 ^ 53"
      using low by (rule divide_right_mono) simp
    finally have "double_ulp x / 2 \<le> \<bar>x\<bar> / 2 ^ 53" .
    with round_to_double_near [of x] have "\<bar>round_to_double x - x\<bar> \<le> \<bar>x\<bar> / 2 ^ 53"
      by (rule order_trans)
    then show ?thesis by (rule max.coboundedI1)
  next
    case False
    then have "?e - 52 \<le> - 1074" by linarith
    then have m: "max (?e - 52) (- 1074) = - 1074" by (rule max_absorb2)
    have "double_ulp x / 2 = 2 powi (- 1074) / 2"
      unfolding double_ulp_def m ..
    also have "\<dots> = 2 powi (- 1074 - 1)"
      using power_int_diff [of "2::rat" "- 1074" 1] by (simp only: power_int_1_right) simp
    finally have "double_ulp x / 2 = 2 powi (- 1075)" by (simp only: diff_minus_eq_add) simp
    with round_to_double_near [of x] have "\<bar>round_to_double x - x\<bar> \<le> 2 powi (- 1075)"
      by (simp only:)
    then show ?thesis by (rule max.coboundedI2)
  qed
qed

lemma round_to_double_exact_iff:
  "round_to_double x = x \<longleftrightarrow> x / double_ulp x \<in> \<int>"
proof (cases "x = 0")
  case True
  then show ?thesis by (simp add: round_to_double_def)
next
  case False
  let ?u = "double_ulp x"
  have u: "?u \<noteq> 0" using double_ulp_pos [of x] by simp
  have "round_to_double x = x \<longleftrightarrow> of_int (round_half_even (x / ?u)) = x / ?u"
    using False u by (simp add: round_to_double_def field_simps)
  also have "\<dots> \<longleftrightarrow> x / ?u \<in> \<int>"
    by (metis Ints_cases Ints_of_int round_half_even_of_int)
  finally show ?thesis .
qed

lemma round_to_double_significand:
  "\<exists>m. round_to_double x = of_int m * double_ulp x \<and> \<bar>m\<bar> \<le> 2 ^ 53"
proof (cases "x = 0")
  case True
  then show ?thesis by (intro exI [of _ 0]) (simp add: round_to_double_def)
next
  case False
  then have pos: "0 < \<bar>x\<bar>" by simp
  let ?e = "floor_log2 \<bar>x\<bar>"
  let ?u = "double_ulp x"
  let ?m = "round_half_even (x / ?u)"
  have u: "0 < ?u" by (rule double_ulp_pos)
  from floor_log2_bounds [OF pos] have up: "\<bar>x\<bar> < 2 powi (?e + 1)" by simp
  have "2 powi (?e - 52) \<le> ?u"
    by (simp add: double_ulp_def power_int_increasing)
  then have "2 powi (?e + 1) \<le> 2 ^ 53 * ?u"
  proof -
    have "(2::rat) powi (?e + 1) = 2 ^ 53 * 2 powi (?e - 52)"
      by (simp add: power_int_diff power_int_add)
    also have "\<dots> \<le> 2 ^ 53 * ?u"
      using \<open>2 powi (?e - 52) \<le> ?u\<close> by (intro mult_left_mono) simp_all
    finally show ?thesis .
  qed
  with up have "\<bar>x\<bar> < 2 ^ 53 * ?u" by simp
  then have y: "\<bar>x / ?u\<bar> < 2 ^ 53" using u by (simp add: abs_divide pos_divide_less_eq)
  have "\<bar>(of_int ?m :: rat)\<bar> \<le> \<bar>of_int ?m - x / ?u\<bar> + \<bar>x / ?u\<bar>" by linarith
  also have "\<dots> < 1 / 2 + 2 ^ 53"
    using round_half_even_near [of "x / ?u"] y by simp
  finally have "(of_int \<bar>?m\<bar> :: rat) < of_int (2 ^ 53) + 1 / 2" by simp
  then have "(of_int \<bar>?m\<bar> :: rat) < of_int (2 ^ 53 + 1)" by simp
  then have "\<bar>?m\<bar> < 2 ^ 53 + 1" by (simp only: of_int_less_iff)
  then have "\<bar>?m\<bar> \<le> 2 ^ 53" by simp
  with False show ?thesis by (intro exI [of _ ?m]) (simp add: round_to_double_def)
qed

section \<open>Aggregation\<close>

lemma competencies_of_recorded: "competencies_of ms skill = recorded_levels ms skill"
proof -
  have "concat (map (\<lambda>member. case map_of ms member of None \<Rightarrow> []
          | Some sk \<Rightarrow> (case map_of sk skill of None \<Rightarrow> [] | Some level \<Rightarrow> [level])) ks)
        = List.map_filter (recorded_level ms skill) ks" for ks
    by (induction ks) (auto simp: List.map_filter_simps recorded_level_def split: option.splits)
  then show ?thesis
    by (simp add: competencies_of_def recorded_levels_def)
qed

lemma skill_stats_of_snoc:
  "skill_stats_of ms (names @ [skill]) = add_skill_stats ms (skill_stats_of ms names) skill"
  by (simp add: skill_stats_of_def)

lemma fold_min_Min: "fold min cs (c :: int) = Min (set (c # cs))"
  by (simp only: Min.set_eq_fold)

lemma fold_max_Max: "fold max cs (c :: int) = Max (set (c # cs))"
  by (simp only: Max.set_eq_fold)

lemma add_skill_stats_unscored:
  "recorded_levels ms skill = [] \<Longrightarrow> add_skill_stats ms st skill = st"
  by (simp add: add_skill_stats_def competencies_of_recorded)

lemma add_skill_stats_scored:
  assumes "recorded_levels ms skill \<noteq> []"
  shows "add_skill_stats ms st skill =
           \<lparr>stat_Skill = stat_Skill st @ [skill],
            stat_Min = stat_Min st @ [Min (set (recorded_levels ms skill))],
            stat_Max = stat_Max st @ [Max (set (recorded_levels ms skill))],
            stat_Average = stat_Average st @
              [round_to_double (exact_average (recorded_levels ms skill))]\<rparr>"
proof -
  from assms obtain c cs where eq: "recorded_levels ms skill = c # cs"
    by (cases "recorded_levels ms skill") auto
  show ?thesis
    unfolding add_skill_stats_def competencies_of_recorded eq exact_average_def
    by (simp only: list.case fold_min_Min fold_max_Max)
qed

lemma skill_stats_of_columns:
  "stat_Skill (skill_stats_of ms names) = scored_skills ms names
   \<and> stat_Min (skill_stats_of ms names)
       = map (\<lambda>skill. Min (set (recorded_levels ms skill))) (scored_skills ms names)
   \<and> stat_Max (skill_stats_of ms names)
       = map (\<lambda>skill. Max (set (recorded_levels ms skill))) (scored_skills ms names)
   \<and> stat_Average (skill_stats_of ms names)
       = map (\<lambda>skill. round_to_double (exact_average (recorded_levels ms skill)))
           (scored_skills ms names)"
proof (induction names rule: rev_induct)
  case Nil
  then show ?case by (simp add: skill_stats_of_def scored_skills_def)
next
  case (snoc skill names)
  show ?case
  proof (cases "recorded_levels ms skill = []")
    case True
    with snoc show ?thesis
      by (simp add: skill_stats_of_snoc add_skill_stats_unscored scored_skills_def)
  next
    case False
    with snoc show ?thesis
      by (simp add: skill_stats_of_snoc add_skill_stats_scored scored_skills_def)
  qed
qed

text \<open>
  The average of levels between 0 and 10 lies between 0 and 10, far from the exponent
  range in which a quotient would be too large for a double.
\<close>

lemma sum_list_levels_bounds:
  "\<forall>l \<in> set levels. 0 \<le> l \<and> l \<le> (10 :: int) \<Longrightarrow>
     0 \<le> sum_list levels \<and> sum_list levels \<le> 10 * int (length levels)"
  by (induction levels) auto

lemma exact_average_bounds:
  assumes "levels \<noteq> []" and "\<forall>l \<in> set levels. 0 \<le> l \<and> l \<le> (10 :: int)"
  shows "0 \<le> exact_average levels \<and> exact_average levels \<le> 10"
proof -
  from assms(1) have len: "(0 :: rat) < of_nat (length levels)" by simp
  from sum_list_levels_bounds [OF assms(2)]
  have lo: "(0 :: rat) \<le> of_int (sum_list levels)"
    and hi: "(of_int (sum_list levels) :: rat) \<le> of_int (10 * int (length levels))"
    by (simp_all only: of_int_le_iff of_int_0_le_iff)
  from hi have "(of_int (sum_list levels) :: rat) \<le> 10 * of_nat (length levels)" by simp
  with len lo show ?thesis
    by (simp add: exact_average_def pos_divide_le_eq)
qed

lemma round_to_double_10_3: "round_to_double (10 / 3) = 7505999378950827 / 2251799813685248"
  by code_simp

lemma exact_average_3_3_4: "exact_average [3, 3, 4] = 10 / 3"
  by (simp add: exact_average_def)

text \<open>
  C1, as the code has it. The aggregation loop returns four columns of equal length, one
  entry per skill of the category's list that has at least one recorded level, in the
  order of the list. For such a skill the entries are the minimum and the maximum of the
  levels that the members with an entry for the skill have recorded, and their average
  as a float: the exact sum divided by the count, rounded to the nearest double. The
  float differs from the exact average by at most the larger of its \<open>2 ^ 53\<close>-th part
  and \<open>2 ^ - 1075\<close>, and it is the exact average if and only if that is a multiple of
  the spacing of the doubles around it. A member without an entry adds no level (the
  levels are those of the members whose lookup succeeds, so their number is the number
  of such members), and a skill without any level appears in no column.
\<close>

theorem skill_stats_of_correct:
  "stat_Skill (skill_stats_of ms names) = filter (\<lambda>skill. recorded_levels ms skill \<noteq> []) names
   \<and> stat_Min (skill_stats_of ms names)
       = map (\<lambda>skill. Min (set (recorded_levels ms skill))) (scored_skills ms names)
   \<and> stat_Max (skill_stats_of ms names)
       = map (\<lambda>skill. Max (set (recorded_levels ms skill))) (scored_skills ms names)
   \<and> stat_Average (skill_stats_of ms names)
       = map (\<lambda>skill. round_to_double (exact_average (recorded_levels ms skill)))
           (scored_skills ms names)
   \<and> \<bar>round_to_double (exact_average (recorded_levels ms skill))
         - exact_average (recorded_levels ms skill)\<bar>
       \<le> max (\<bar>exact_average (recorded_levels ms skill)\<bar> / 2 ^ 53) (2 powi (- 1075))
   \<and> (round_to_double (exact_average (recorded_levels ms skill))
          = exact_average (recorded_levels ms skill)
        \<longleftrightarrow> exact_average (recorded_levels ms skill)
              / double_ulp (exact_average (recorded_levels ms skill)) \<in> \<int>)
   \<and> recorded_levels ms skill
       = map (\<lambda>member. the (recorded_level ms skill member))
           (filter (\<lambda>member. recorded_level ms skill member \<noteq> None) (dict_keys ms))"
proof -
  note cols = skill_stats_of_columns [of ms names]
  have skill: "stat_Skill (skill_stats_of ms names)
                 = filter (\<lambda>skill. recorded_levels ms skill \<noteq> []) names"
    using cols by (simp add: scored_skills_def)
  have avg: "stat_Average (skill_stats_of ms names)
       = map (\<lambda>skill. round_to_double (exact_average (recorded_levels ms skill)))
           (scored_skills ms names)"
    using cols by simp
  have lv: "recorded_levels ms skill
       = map (\<lambda>member. the (recorded_level ms skill member))
           (filter (\<lambda>member. recorded_level ms skill member \<noteq> None) (dict_keys ms))"
    by (simp add: recorded_levels_def List.map_filter_def)
  from skill cols avg lv
    round_to_double_error [of "exact_average (recorded_levels ms skill)"]
    round_to_double_exact_iff [of "exact_average (recorded_levels ms skill)"]
  show ?thesis by (simp only: simp_thms)
qed

theorem skill_stats_of_correct_witness:
  "skill_stats_of
     [(''Ana'', [(''Python'', 3)]), (''Ben'', [(''Python'', 3)]), (''Cy'', [(''Python'', 4)]),
      (''Dee'', [])]
     [''Databricks'', ''Python'', ''NodeJS'', ''SQL'', ''Gitlab'']
   = \<lparr>stat_Skill = [''Python''], stat_Min = [3], stat_Max = [4],
      stat_Average = [7505999378950827 / 2251799813685248]\<rparr>"
proof -
  let ?ms = "[(''Ana'', [(''Python'', 3)]), (''Ben'', [(''Python'', 3)]),
              (''Cy'', [(''Python'', 4)]), (''Dee'', [])]"
  let ?names = "[''Databricks'', ''Python'', ''NodeJS'', ''SQL'', ''Gitlab'']"
  have lv: "recorded_levels ?ms ''Databricks'' = []" "recorded_levels ?ms ''Python'' = [3, 3, 4]"
    "recorded_levels ?ms ''NodeJS'' = []" "recorded_levels ?ms ''SQL'' = []"
    "recorded_levels ?ms ''Gitlab'' = []"
    by (simp_all add: recorded_levels_def recorded_level_def dict_keys_def List.map_filter_simps)
  have sc: "scored_skills ?ms ?names = [''Python'']"
    by (simp add: scored_skills_def lv)
  have avg: "round_to_double (exact_average [3, 3, 4]) = 7505999378950827 / 2251799813685248"
    by (simp only: exact_average_3_3_4 round_to_double_10_3)
  note th = skill_stats_of_correct [of ?ms ?names "''Python''"]
  have s1: "stat_Skill (skill_stats_of ?ms ?names) = [''Python'']"
    using th [THEN conjunct1] by (simp add: lv)
  have s2: "stat_Min (skill_stats_of ?ms ?names) = [3]"
    using th [THEN conjunct2, THEN conjunct1] by (simp add: sc lv)
  have s3: "stat_Max (skill_stats_of ?ms ?names) = [4]"
    using th [THEN conjunct2, THEN conjunct2, THEN conjunct1] by (simp add: sc lv)
  have s4: "stat_Average (skill_stats_of ?ms ?names) = [7505999378950827 / 2251799813685248]"
    using th [THEN conjunct2, THEN conjunct2, THEN conjunct2, THEN conjunct1]
    by (simp add: sc lv avg)
  from s1 s2 s3 s4 show ?thesis by (simp add: skill_stats.equality)
qed

theorem average_rounded_counterexample:
  "recorded_levels
     [(''Ana'', [(''Python'', 3)]), (''Ben'', [(''Python'', 3)]), (''Cy'', [(''Python'', 4)])]
     ''Python'' = [3, 3, 4]
   \<and> exact_average [3, 3, 4] = 10 / 3
   \<and> stat_Average (skill_stats_of
        [(''Ana'', [(''Python'', 3)]), (''Ben'', [(''Python'', 3)]), (''Cy'', [(''Python'', 4)])]
        [''Python'']) = [7505999378950827 / 2251799813685248]
   \<and> stat_Average (skill_stats_of
        [(''Ana'', [(''Python'', 3)]), (''Ben'', [(''Python'', 3)]), (''Cy'', [(''Python'', 4)])]
        [''Python'']) \<noteq> [10 / 3]"
proof -
  let ?ms = "[(''Ana'', [(''Python'', 3)]), (''Ben'', [(''Python'', 3)]), (''Cy'', [(''Python'', 4)])]"
  have lv: "recorded_levels ?ms ''Python'' = [3, 3, 4]"
    by (simp add: recorded_levels_def recorded_level_def dict_keys_def List.map_filter_simps)
  have "stat_Average (skill_stats_of ?ms [''Python''])
          = [round_to_double (exact_average [3, 3, 4])]"
    using skill_stats_of_columns [of ?ms "[''Python'']"]
    by (simp add: scored_skills_def lv)
  then have avg: "stat_Average (skill_stats_of ?ms [''Python''])
               = [7505999378950827 / 2251799813685248]"
    by (simp only: exact_average_3_3_4 round_to_double_10_3)
  have "(7505999378950827 / 2251799813685248 :: rat) \<noteq> 10 / 3"
    by simp
  with avg have "stat_Average (skill_stats_of ?ms [''Python'']) \<noteq> [10 / 3]"
    by simp
  with lv exact_average_3_3_4 avg show ?thesis by (simp only: simp_thms)
qed

section \<open>Eligibility of a chart\<close>


lemma recorded_levels_no_members: "recorded_levels [] skill = []"
  by (simp add: recorded_levels_def dict_keys_def List.map_filter_simps)

lemma eligible_count_empty:
  "category_skills td category = [] \<or> members td = [] \<Longrightarrow> eligible_count td category = 0"
  by (auto simp: eligible_count_def scored_skills_def recorded_levels_no_members)

lemma display_guarded:
  assumes "map_of ts team_name = Some td"
    and "category_skills td category = [] \<or> members td = []"
  shows "display_category_radar_chart team_name category ts
           = Inr ([(Warning, Cannot_create_chart category team_name)], None)"
  using assms by (auto simp: display_category_radar_chart_def category_skills_def Let_def)

lemma display_aggregated:
  assumes "map_of ts team_name = Some td"
    and "category_skills td category \<noteq> []" and "members td \<noteq> []"
  shows "display_category_radar_chart team_name category ts =
           (let st = skill_stats_of (members td) (category_skills td category);
                n = eligible_count td category in
            if n < 5 \<or> n > 8 then Inr ([(Warning, Skill_count_out_of_range category n)], None)
            else Inr ([], Some \<lparr>theta = stat_Skill st, r_Min = stat_Min st, r_Max = stat_Max st,
                               r_Average = stat_Average st,
                               title_category = category, title_team = team_name\<rparr>))"
proof -
  have n: "length (stat_Skill (skill_stats_of (members td) (category_skills td category)))
             = eligible_count td category"
    by (simp add: eligible_count_def skill_stats_of_columns)
  show ?thesis
    using assms unfolding display_category_radar_chart_def Let_def n [symmetric]
    by (simp add: category_skills_def)
qed


text \<open>
  C2, as the code has it. For a team of the dictionary, the chart function returns a
  figure exactly when the number of eligible skills of the category lies between 5 and 8,
  and the figure's axis then lists the eligible skills. Otherwise it returns no figure and
  one warning. When the category's skill list and the team's members are both non-empty,
  this warning reports a count, and the count is the number of eligible skills. (When one
  of them is empty the warning is the one of the guard at the head of the function, which
  reports no count.)
\<close>

theorem chart_iff_count:
  assumes "map_of ts team_name = Some td"
  shows "((\<exists>msgs fig. display_category_radar_chart team_name category ts = Inr (msgs, Some fig))
            \<longleftrightarrow> 5 \<le> eligible_count td category \<and> eligible_count td category \<le> 8)
         \<and> (5 \<le> eligible_count td category \<and> eligible_count td category \<le> 8 \<longrightarrow>
              (\<exists>fig. display_category_radar_chart team_name category ts = Inr ([], Some fig)
                 \<and> theta fig = scored_skills (members td) (category_skills td category)))
         \<and> (\<not> (5 \<le> eligible_count td category \<and> eligible_count td category \<le> 8) \<longrightarrow>
              (\<exists>w. display_category_radar_chart team_name category ts = Inr ([(Warning, w)], None)))
         \<and> (\<not> (5 \<le> eligible_count td category \<and> eligible_count td category \<le> 8)
              \<and> category_skills td category \<noteq> [] \<and> members td \<noteq> [] \<longrightarrow>
              display_category_radar_chart team_name category ts
                = Inr ([(Warning, Skill_count_out_of_range category (eligible_count td category))],
                       None))"
proof (cases "category_skills td category = [] \<or> members td = []")
  case True
  from display_guarded [OF assms True] eligible_count_empty [OF True] True
  show ?thesis by simp
next
  case False
  then have ne: "category_skills td category \<noteq> []" "members td \<noteq> []" by simp_all
  show ?thesis
    unfolding display_aggregated [OF assms ne] Let_def
    by (auto simp: not_le not_less skill_stats_of_columns)
qed

theorem chart_iff_count_witness:
  "map_of [(''Alpha'', \<lparr>members = [(''Ana'', [(''Python'', 7)]), (''Ben'', [(''Python'', 3)])],
                        skills = DEFAULT_SKILLS\<rparr>)] ''Alpha''
     = Some \<lparr>members = [(''Ana'', [(''Python'', 7)]), (''Ben'', [(''Python'', 3)])],
             skills = DEFAULT_SKILLS\<rparr>
   \<and> display_category_radar_chart ''Alpha'' ''Technical''
        [(''Alpha'', \<lparr>members = [(''Ana'', [(''Python'', 7)]), (''Ben'', [(''Python'', 3)])],
                      skills = DEFAULT_SKILLS\<rparr>)]
      = Inr ([(Warning, Skill_count_out_of_range ''Technical'' 1)], None)
   \<and> (\<exists>fig. display_category_radar_chart ''Alpha'' ''Technical''
          [(''Alpha'', \<lparr>members = [(''Ana'', [(''Databricks'', 1), (''Python'', 7), (''NodeJS'', 2),
                                               (''SQL'', 4), (''Gitlab'', 5)]), (''Ben'', [])],
                        skills = DEFAULT_SKILLS\<rparr>)] = Inr ([], Some fig)
        \<and> theta fig = [''Databricks'', ''Python'', ''NodeJS'', ''SQL'', ''Gitlab''])"
proof -
  let ?td = "\<lparr>members = [(''Ana'', [(''Python'', 7)]), (''Ben'', [(''Python'', 3)])],
              skills = DEFAULT_SKILLS\<rparr>"
  have look: "map_of [(''Alpha'', ?td)] ''Alpha'' = Some ?td" by simp
  have names: "category_skills ?td ''Technical''
                 = [''Databricks'', ''Python'', ''NodeJS'', ''SQL'', ''Gitlab'']"
    by (simp add: category_skills_def DEFAULT_SKILLS_def)
  have n: "eligible_count ?td ''Technical'' = 1"
    by (simp add: eligible_count_def names scored_skills_def recorded_levels_def
          recorded_level_def dict_keys_def List.map_filter_simps)
  have one: "display_category_radar_chart ''Alpha'' ''Technical'' [(''Alpha'', ?td)]
               = Inr ([(Warning, Skill_count_out_of_range ''Technical'' 1)], None)"
    using chart_iff_count [OF look, of "''Technical''"] names
    by (simp add: n)
  let ?td5 = "\<lparr>members = [(''Ana'', [(''Databricks'', 1), (''Python'', 7), (''NodeJS'', 2),
                                    (''SQL'', 4), (''Gitlab'', 5)]), (''Ben'', [])],
               skills = DEFAULT_SKILLS\<rparr>"
  have look5: "map_of [(''Alpha'', ?td5)] ''Alpha'' = Some ?td5" by simp
  have names5: "category_skills ?td5 ''Technical''
                  = [''Databricks'', ''Python'', ''NodeJS'', ''SQL'', ''Gitlab'']"
    by (simp add: category_skills_def DEFAULT_SKILLS_def)
  have scored5: "scored_skills (members ?td5) (category_skills ?td5 ''Technical'')
                   = [''Databricks'', ''Python'', ''NodeJS'', ''SQL'', ''Gitlab'']"
    by (simp add: names5 scored_skills_def recorded_levels_def
          recorded_level_def dict_keys_def List.map_filter_simps)
  have n5: "eligible_count ?td5 ''Technical'' = 5"
    unfolding eligible_count_def scored5 by simp
  have five: "\<exists>fig. display_category_radar_chart ''Alpha'' ''Technical'' [(''Alpha'', ?td5)]
                      = Inr ([], Some fig)
                \<and> theta fig = [''Databricks'', ''Python'', ''NodeJS'', ''SQL'', ''Gitlab'']"
    using chart_iff_count [OF look5, of "''Technical''"]
    unfolding n5 scored5 by simp
  from look one five show ?thesis by simp
qed

theorem chart_notice_counterexample:
  "eligible_count \<lparr>members = [], skills = DEFAULT_SKILLS\<rparr> ''Technical'' = 0
   \<and> display_category_radar_chart ''Alpha'' ''Technical''
        [(''Alpha'', \<lparr>members = [], skills = DEFAULT_SKILLS\<rparr>)]
      = Inr ([(Warning, Cannot_create_chart ''Technical'' ''Alpha'')], None)
   \<and> reported_count (Cannot_create_chart ''Technical'' ''Alpha'') \<noteq> Some 0"
  by (simp add: eligible_count_def scored_skills_def recorded_levels_def dict_keys_def
        List.map_filter_simps display_category_radar_chart_def DEFAULT_SKILLS_def)

text \<open>
  C5, as the code has it. For a team of the dictionary whose member set is empty, or a
  category whose skill list is empty, the chart function raises nothing: the guard at its
  head returns at once, with no figure and the warning that no chart can be created for
  this category and team. The warning reports no count. The number of eligible skills is
  then zero, and the aggregation, had it run, would have returned no record.
\<close>

theorem chart_guard:
  assumes "map_of ts team_name = Some td"
    and "category_skills td category = [] \<or> members td = []"
  shows "display_category_radar_chart team_name category ts
           = Inr ([(Warning, Cannot_create_chart category team_name)], None)
         \<and> reported_count (Cannot_create_chart category team_name) = None
         \<and> eligible_count td category = 0
         \<and> stat_Skill (skill_stats_of (members td) (category_skills td category)) = []"
  using display_guarded [OF assms] eligible_count_empty [OF assms(2)]
  by (simp add: skill_stats_of_columns eligible_count_def)

theorem chart_guard_witness:
  "map_of [(''Beta'', \<lparr>members = [], skills = DEFAULT_SKILLS\<rparr>)] ''Beta''
     = Some \<lparr>members = [], skills = DEFAULT_SKILLS\<rparr>
   \<and> (category_skills \<lparr>members = [], skills = DEFAULT_SKILLS\<rparr> ''Domain'' = []
        \<or> members \<lparr>members = [], skills = DEFAULT_SKILLS\<rparr> = [])
   \<and> display_category_radar_chart ''Beta'' ''Domain''
        [(''Beta'', \<lparr>members = [], skills = DEFAULT_SKILLS\<rparr>)]
      = Inr ([(Warning, Cannot_create_chart ''Domain'' ''Beta'')], None)"
  using chart_guard [of "[(''Beta'', \<lparr>members = [], skills = DEFAULT_SKILLS\<rparr>)]" "''Beta''"
      "\<lparr>members = [], skills = DEFAULT_SKILLS\<rparr>" "''Domain''"]
  by simp

theorem chart_guard_counterexample:
  "display_category_radar_chart ''Beta'' ''Domain''
     [(''Beta'', \<lparr>members = [], skills = DEFAULT_SKILLS\<rparr>)]
     \<noteq> Inr ([(Warning, Skill_count_out_of_range ''Domain'' 0)], None)
   \<and> display_category_radar_chart ''Beta'' ''Domain''
        [(''Beta'', \<lparr>members = [], skills = DEFAULT_SKILLS\<rparr>)]
      = Inr ([(Warning, Cannot_create_chart ''Domain'' ''Beta'')], None)"
  by (simp add: display_category_radar_chart_def DEFAULT_SKILLS_def)

section \<open>The export and its round trip\<close>

lemma export_skills_rows:
  "export_skills team_name member_name all_data sk = all_data @ skill_rows team_name member_name sk"
  unfolding export_skills_def skill_rows_def
  by (induction sk arbitrary: all_data) auto

lemma export_members_rows:
  "export_members team_name all_data ms = all_data @ member_rows team_name ms"
  unfolding export_members_def member_rows_def
  by (induction ms arbitrary: all_data) (auto simp: export_skills_rows)

lemma export_teams_rows:
  "foldl (\<lambda>acc (team_name, team_data). export_members team_name acc (members team_data)) all_data ts
     = all_data @ team_rows ts"
  unfolding team_rows_def
  by (induction ts arbitrary: all_data) (auto simp: export_members_rows)

lemma export_data_rows: "export_data ts = team_rows ts"
  by (simp add: export_data_def export_teams_rows)

lemma levels_at_append: "levels_at key (xs @ ys) = levels_at key xs @ levels_at key ys"
  by (simp add: levels_at_def)

lemma levels_at_skill_rows:
  assumes "dict_ok sk"
  shows "levels_at (t, m, k) (skill_rows t' m' sk) =
           (if t' = t \<and> m' = m then (case map_of sk k of None \<Rightarrow> [] | Some l \<Rightarrow> [l]) else [])"
  using assms
proof (induction sk)
  case Nil
  then show ?case by (simp add: levels_at_def skill_rows_def)
next
  case (Cons p sk)
  obtain k0 l0 where p: "p = (k0, l0)" by (cases p)
  from Cons.prems have fresh: "k0 \<notin> fst ` set sk" and ok: "dict_ok sk"
    by (simp_all add: p dict_ok_def dict_keys_def)
  from fresh have none: "map_of sk k0 = None" by (simp add: map_of_eq_None_iff)
  have split: "skill_rows t' m' (p # sk)
      = \<lparr>Team = t', Member = m', Skill = k0, Competency_Level = l0\<rparr> # skill_rows t' m' sk"
    by (simp add: skill_rows_def p)
  have step: "levels_at (t, m, k) (skill_rows t' m' (p # sk)) =
      (if t' = t \<and> m' = m \<and> k0 = k then [l0] else []) @ levels_at (t, m, k) (skill_rows t' m' sk)"
    unfolding split by (simp add: levels_at_def row_key_def)
  show ?case
    unfolding step Cons.IH [OF ok] using none by (auto simp: p)
qed

lemma levels_at_member_rows:
  assumes "dict_ok ms" and "list_all (\<lambda>(member_name, sk). dict_ok sk) ms"
  shows "levels_at (t, m, k) (member_rows t' ms) =
           (if t' = t then (case recorded_level ms k m of None \<Rightarrow> [] | Some l \<Rightarrow> [l]) else [])"
  using assms
proof (induction ms)
  case Nil
  then show ?case by (simp add: levels_at_def member_rows_def recorded_level_def)
next
  case (Cons p ms)
  obtain m0 sk0 where p: "p = (m0, sk0)" by (cases p)
  from Cons.prems have fresh: "m0 \<notin> fst ` set ms" and ok: "dict_ok ms"
    and oks: "list_all (\<lambda>(member_name, sk). dict_ok sk) ms" and ok0: "dict_ok sk0"
    by (simp_all add: p dict_ok_def dict_keys_def)
  from fresh have none: "map_of ms m0 = None" by (simp add: map_of_eq_None_iff)
  have split: "member_rows t' (p # ms) = skill_rows t' m0 sk0 @ member_rows t' ms"
    by (simp add: member_rows_def p)
  show ?case
    unfolding split levels_at_append levels_at_skill_rows [OF ok0] Cons.IH [OF ok oks]
    using none by (auto simp: p recorded_level_def)
qed

lemma levels_at_team_rows:
  assumes "teams_ok ts"
  shows "levels_at key (team_rows ts) = (case score_of ts key of None \<Rightarrow> [] | Some l \<Rightarrow> [l])"
  using assms
proof (induction ts)
  case Nil
  then show ?case by (simp add: levels_at_def team_rows_def score_of_def split: prod.splits)
next
  case (Cons p ts)
  obtain t0 td0 where p: "p = (t0, td0)" by (cases p)
  obtain t m k where key: "key = (t, m, k)" by (cases key)
  from Cons.prems have fresh: "t0 \<notin> fst ` set ts" and ok: "teams_ok ts"
    and ok0: "dict_ok (members td0)"
    and oks0: "list_all (\<lambda>(member_name, sk). dict_ok sk) (members td0)"
    by (simp_all add: p teams_ok_def dict_ok_def dict_keys_def)
  from fresh have none: "map_of ts t0 = None" by (simp add: map_of_eq_None_iff)
  have split: "team_rows (p # ts) = member_rows t0 (members td0) @ team_rows ts"
    by (simp add: team_rows_def p)
  have ih: "levels_at (t, m, k) (team_rows ts)
              = (case score_of ts (t, m, k) of None \<Rightarrow> [] | Some l \<Rightarrow> [l])"
    using Cons.IH [OF ok] by (simp add: key)
  show ?case
    unfolding key split levels_at_append levels_at_member_rows [OF ok0 oks0] ih
    using none by (auto simp: p score_of_def)
qed

lemma regroup_levels_at:
  "regroup rows key = (case levels_at key rows of [] \<Rightarrow> None | l # ls \<Rightarrow> Some l)"
  by (induction rows) (auto simp: regroup_def levels_at_def)

text \<open>
  C9. In a state whose dictionaries are dictionaries, the export is the list of rows
  taken team by team, within a team member by member, within a member skill by skill as
  recorded. The rows that carry a given team, member and skill are exactly one when a
  level is recorded under them, with that level, and none otherwise; the mapping read
  back from the rows by their team, member and skill is the score mapping of the state.
\<close>

theorem export_round_trip:
  assumes "teams_ok ts"
  shows "export_data ts =
           concat (map (\<lambda>(team_name, td).
             concat (map (\<lambda>(member_name, sk).
               map (\<lambda>(skill, level). \<lparr>Team = team_name, Member = member_name, Skill = skill,
                      Competency_Level = level\<rparr>) sk) (members td))) ts)
         \<and> levels_at key (export_data ts) = (case score_of ts key of None \<Rightarrow> [] | Some l \<Rightarrow> [l])
         \<and> regroup (export_data ts) = score_of ts"
proof -
  have rows: "export_data ts =
           concat (map (\<lambda>(team_name, td).
             concat (map (\<lambda>(member_name, sk).
               map (\<lambda>(skill, level). \<lparr>Team = team_name, Member = member_name, Skill = skill,
                      Competency_Level = level\<rparr>) sk) (members td))) ts)"
    by (simp add: export_data_rows team_rows_def member_rows_def skill_rows_def)
  have group: "levels_at key' (export_data ts)
                 = (case score_of ts key' of None \<Rightarrow> [] | Some l \<Rightarrow> [l])" for key'
    by (simp add: export_data_rows levels_at_team_rows [OF assms])
  have "regroup (export_data ts) key' = score_of ts key'" for key'
    by (simp add: regroup_levels_at group split: option.splits)
  then have "regroup (export_data ts) = score_of ts" by (rule ext)
  with rows group show ?thesis by simp
qed

theorem export_round_trip_witness:
  "teams_ok [(''Alpha'', \<lparr>members = [(''Ana'', [(''Python'', 7), (''SQL'', 2)]), (''Ben'', [])],
                          skills = DEFAULT_SKILLS\<rparr>),
             (''Beta'', \<lparr>members = [(''Ana'', [(''LM'', 10)])], skills = DEFAULT_SKILLS\<rparr>)]
   \<and> export_data
        [(''Alpha'', \<lparr>members = [(''Ana'', [(''Python'', 7), (''SQL'', 2)]), (''Ben'', [])],
                      skills = DEFAULT_SKILLS\<rparr>),
         (''Beta'', \<lparr>members = [(''Ana'', [(''LM'', 10)])], skills = DEFAULT_SKILLS\<rparr>)]
      = [\<lparr>Team = ''Alpha'', Member = ''Ana'', Skill = ''Python'', Competency_Level = 7\<rparr>,
         \<lparr>Team = ''Alpha'', Member = ''Ana'', Skill = ''SQL'', Competency_Level = 2\<rparr>,
         \<lparr>Team = ''Beta'', Member = ''Ana'', Skill = ''LM'', Competency_Level = 10\<rparr>]"
proof -
  let ?ts = "[(''Alpha'', \<lparr>members = [(''Ana'', [(''Python'', 7), (''SQL'', 2)]), (''Ben'', [])],
                          skills = DEFAULT_SKILLS\<rparr>),
             (''Beta'', \<lparr>members = [(''Ana'', [(''LM'', 10)])], skills = DEFAULT_SKILLS\<rparr>)]"
  have ok: "teams_ok ?ts"
    by (simp add: teams_ok_def dict_ok_def dict_keys_def)
  show ?thesis
    using ok export_round_trip [OF ok] by simp
qed

section \<open>Adding members and skills\<close>

lemma add_members_loop_extends:
  assumes "map_of ts team_name = Some td"
  shows "\<exists>new. add_members_loop team_name names ts
             = Inr (AList.update team_name
                      (td\<lparr>members := members td @ map (\<lambda>n. (n, [])) new\<rparr>) ts)
           \<and> set new \<subseteq> set names - set (dict_keys (members td))"
  using assms
proof (induction names arbitrary: ts td)
  case Nil
  have "add_members_loop team_name [] ts
          = Inr (AList.update team_name (td\<lparr>members := members td @ map (\<lambda>n. (n, [])) []\<rparr>) ts)"
    using Nil by (simp add: update_triv)
  then show ?case by (intro exI [of _ "[]"]) simp
next
  case (Cons n names)
  show ?case
  proof (cases "n \<noteq> [] \<and> \<not> dict_in n (members td)")
    case False
    from Cons.IH [OF Cons.prems] obtain new where
      new: "add_members_loop team_name names ts
              = Inr (AList.update team_name
                       (td\<lparr>members := members td @ map (\<lambda>n. (n, [])) new\<rparr>) ts)"
      "set new \<subseteq> set names - set (dict_keys (members td))"
      by blast
    from False Cons.prems have "add_members_loop team_name (n # names) ts
                       = add_members_loop team_name names ts"
      by auto
    with new show ?thesis by (intro exI [of _ new]) auto
  next
    case True
    let ?td1 = "td\<lparr>members := members td @ [(n, [])]\<rparr>"
    let ?ts1 = "AList.update team_name ?td1 ts"
    from True have fresh: "n \<notin> fst ` set (members td)"
      by (simp add: dict_in_def dict_keys_def)
    have look1: "map_of ?ts1 team_name = Some ?td1"
      by (simp add: update_conv')
    from Cons.IH [OF look1] obtain new where
      new: "add_members_loop team_name names ?ts1
              = Inr (AList.update team_name
                       (?td1\<lparr>members := members ?td1 @ map (\<lambda>n. (n, [])) new\<rparr>) ?ts1)"
      "set new \<subseteq> set names - set (dict_keys (members ?td1))"
      by blast
    have step: "add_members_loop team_name (n # names) ts = add_members_loop team_name names ?ts1"
      using True Cons.prems by (simp add: update_fresh [OF fresh])
    have "add_members_loop team_name (n # names) ts
            = Inr (AList.update team_name
                     (td\<lparr>members := members td @ map (\<lambda>n. (n, [])) (n # new)\<rparr>) ts)"
      unfolding step new(1) by simp
    moreover have "set (n # new) \<subseteq> set (n # names) - set (dict_keys (members td))"
      using new(2) fresh by (auto simp: dict_keys_def)
    ultimately show ?thesis by (intro exI [of _ "n # new"]) simp
  qed
qed

lemma parse_names_empty: "parse_names [] = []"
  by (simp add: parse_names_def split_def replace_char_def strip_def)

lemma map_of_extended:
  "map_of ms m = Some s \<Longrightarrow> map_of (ms @ extra) m = Some s"
  by (simp add: map_add_Some_iff)

text \<open>
  C10. When a team has a member under a name and that name is submitted again, possibly
  among others, the call succeeds, and in the new state the member has the mapping from
  skills to levels it had before; so has every other member that the team had. The
  team's skills, the order of the teams and every other team are as before. If every
  submitted name is already a member, the state itself is unchanged.
\<close>

theorem add_members_existing:
  assumes "map_of ts team_name = Some td"
    and "map_of (members td) member_name = Some sk"
    and "member_name \<in> set (parse_names members_input)"
  shows "\<exists>ts' td'.
           add_members team_name members_input True ts
             = Inr ([(Success, Members_added team_name (parse_names members_input))], ts')
         \<and> map_of ts' team_name = Some td'
         \<and> map_of (members td') member_name = Some sk
         \<and> (\<forall>m s. map_of (members td) m = Some s \<longrightarrow> map_of (members td') m = Some s)
         \<and> skills td' = skills td
         \<and> dict_keys ts' = dict_keys ts
         \<and> (\<forall>t. t \<noteq> team_name \<longrightarrow> map_of ts' t = map_of ts t)
         \<and> (set (parse_names members_input) \<subseteq> set (dict_keys (members td)) \<longrightarrow> ts' = ts)"
proof -
  let ?names = "parse_names members_input"
  from assms(3) have input: "members_input \<noteq> []"
    using parse_names_empty by auto
  from add_members_loop_extends [OF assms(1), of ?names] obtain new where
    loop: "add_members_loop team_name ?names ts
             = Inr (AList.update team_name
                      (td\<lparr>members := members td @ map (\<lambda>n. (n, [])) new\<rparr>) ts)"
    and new: "set new \<subseteq> set ?names - set (dict_keys (members td))"
    by blast
  let ?td' = "td\<lparr>members := members td @ map (\<lambda>n. (n, [])) new\<rparr>"
  let ?ts' = "AList.update team_name ?td' ts"
  have res: "add_members team_name members_input True ts
               = Inr ([(Success, Members_added team_name ?names)], ?ts')"
    using input loop by (simp add: add_members_def)
  have look: "map_of ?ts' team_name = Some ?td'"
    by (simp add: update_conv')
  have kept: "map_of (members ?td') m = Some s" if "map_of (members td) m = Some s" for m s
    using that by (simp add: map_of_extended)
  have "team_name \<in> set (map fst ts)"
    using assms(1) by (metis map_of_eq_None_iff option.distinct(1) set_map)
  then have keys: "dict_keys ?ts' = dict_keys ts"
    by (simp add: dict_keys_def update_keys)
  have others: "map_of ?ts' t = map_of ts t" if "t \<noteq> team_name" for t
    using that by (simp add: update_conv')
  have same: "?ts' = ts" if "set ?names \<subseteq> set (dict_keys (members td))"
  proof -
    from that have "set ?names - set (dict_keys (members td)) = {}" by simp
    with new have "new = []" by simp
    then show ?thesis using assms(1) by (simp add: update_triv)
  qed
  from res look kept [OF assms(2)] kept keys others same
  show ?thesis by (intro exI [of _ ?ts'] exI [of _ ?td']) simp
qed

lemma parse_names_Ana: "parse_names ''Ana'' = [''Ana'']"
  by (simp add: parse_names_def split_def replace_char_def strip_def isspace_def)

theorem add_members_existing_witness:
  "map_of [(''Alpha'', \<lparr>members = [(''Ana'', [(''Python'', 7)])], skills = DEFAULT_SKILLS\<rparr>)] ''Alpha''
     = Some \<lparr>members = [(''Ana'', [(''Python'', 7)])], skills = DEFAULT_SKILLS\<rparr>
   \<and> map_of (members \<lparr>members = [(''Ana'', [(''Python'', 7)])], skills = DEFAULT_SKILLS\<rparr>) ''Ana''
       = Some [(''Python'', 7)]
   \<and> ''Ana'' \<in> set (parse_names ''Ana'')
   \<and> add_members ''Alpha'' ''Ana'' True
        [(''Alpha'', \<lparr>members = [(''Ana'', [(''Python'', 7)])], skills = DEFAULT_SKILLS\<rparr>)]
      = Inr ([(Success, Members_added ''Alpha'' [''Ana''])],
             [(''Alpha'', \<lparr>members = [(''Ana'', [(''Python'', 7)])], skills = DEFAULT_SKILLS\<rparr>)])"
  using add_members_existing
    [of "[(''Alpha'', \<lparr>members = [(''Ana'', [(''Python'', 7)])], skills = DEFAULT_SKILLS\<rparr>)]"
        "''Alpha''" "\<lparr>members = [(''Ana'', [(''Python'', 7)])], skills = DEFAULT_SKILLS\<rparr>"
        "''Ana''" "[(''Python'', 7)]" "''Ana''"]
  by (auto simp: parse_names_Ana dict_keys_def)

section \<open>Empty and blank input\<close>

lemma split_acc_blank:
  assumes "\<forall>c \<in> set acc. isspace c" and "\<forall>c \<in> set s. isspace c \<or> c = sep"
  shows "\<forall>p \<in> set (split_acc sep acc s). \<forall>c \<in> set p. isspace c"
  using assms
proof (induction s arbitrary: acc)
  case Nil
  then show ?case by simp
next
  case (Cons c s)
  from Cons.prems(2) have rest: "\<forall>c \<in> set s. isspace c \<or> c = sep" by simp
  show ?case
  proof (cases "c = sep")
    case True
    have "\<forall>p \<in> set (split_acc sep [] s). \<forall>c \<in> set p. isspace c"
      by (rule Cons.IH) (simp_all add: rest)
    with True Cons.prems(1) show ?thesis by simp
  next
    case False
    with Cons.prems have "\<forall>x \<in> set (c # acc). isspace x" by simp
    then have "\<forall>p \<in> set (split_acc sep (c # acc) s). \<forall>c \<in> set p. isspace c"
      using rest by (rule Cons.IH)
    with False show ?thesis by simp
  qed
qed

lemma strip_blank:
  assumes "\<forall>c \<in> set p. isspace c"
  shows "strip p = []"
proof -
  from assms have "dropWhile isspace p = []"
    by (induction p) simp_all
  then show ?thesis by (simp only: strip_def rev.simps dropWhile.simps)
qed

lemma parse_names_blank:
  assumes "\<forall>c \<in> set text. isspace c"
  shows "parse_names text = []"
proof -
  let ?pieces = "split CHR '','' (replace_char CHR 0x0A CHR '','' text)"
  from assms have "\<forall>c \<in> set (replace_char CHR 0x0A CHR '','' text). isspace c \<or> c = CHR '',''"
    by (auto simp: replace_char_def)
  then have "\<forall>p \<in> set ?pieces. \<forall>c \<in> set p. isspace c"
    unfolding split_def by (intro split_acc_blank) simp_all
  then have "\<forall>p \<in> set ?pieces. strip p = []"
    by (simp add: strip_blank)
  then have "concat (map (\<lambda>m. if strip m \<noteq> [] then [strip m] else []) ?pieces) = []"
    by simp
  then show ?thesis
    unfolding parse_names_def by simp
qed

text \<open>
  C4, as the code has it. Submitting the empty string as a team name leaves the state
  unchanged and, unless a team is named by the empty string, reports the error. Submitting
  the empty string as the members of a team, or as the skills of a category, reports the
  error and leaves the state unchanged, for one category and for all three at once. A
  non-empty input for members or skills that consists of white space only leaves the
  state unchanged as well, but the report is the success report with an empty list of
  names.
\<close>

theorem empty_input_rejected:
  "snd (add_team [] True ts) = ts
   \<and> (\<not> dict_in [] ts \<longrightarrow> add_team [] True ts = ([(Error, Invalid_team_name)], ts))
   \<and> add_members team_name [] True ts = Inr ([(Error, Invalid_member_names)], ts)
   \<and> add_skills_category team_name category [] True ts
       = Inr ([(Error, Invalid_skill_names category)], ts)
   \<and> add_skills team_name (\<lambda>category. ([], True)) ts
       = Inr ([(Error, Invalid_skill_names ''Technical''), (Error, Invalid_skill_names ''Domain''),
               (Error, Invalid_skill_names ''Operational'')], ts)
   \<and> (text \<noteq> [] \<and> (\<forall>c \<in> set text. isspace c) \<longrightarrow>
        add_members team_name text True ts = Inr ([(Success, Members_added team_name [])], ts)
        \<and> add_skills_category team_name category text True ts
            = Inr ([(Success, Skills_added category team_name [])], ts))"
proof -
  have team: "snd (add_team [] True ts) = ts"
    "\<not> dict_in [] ts \<longrightarrow> add_team [] True ts = ([(Error, Invalid_team_name)], ts)"
    by (simp_all add: add_team_def)
  have empty: "add_members team_name [] True ts = Inr ([(Error, Invalid_member_names)], ts)"
    "add_skills_category team_name category [] True ts
       = Inr ([(Error, Invalid_skill_names category)], ts)" for category
    by (simp_all add: add_members_def add_skills_category_def)
  have all3: "add_skills team_name (\<lambda>category. ([], True)) ts
       = Inr ([(Error, Invalid_skill_names ''Technical''), (Error, Invalid_skill_names ''Domain''),
               (Error, Invalid_skill_names ''Operational'')], ts)"
    by (simp add: add_skills_def empty)
  have blank: "add_members team_name text True ts = Inr ([(Success, Members_added team_name [])], ts)
        \<and> add_skills_category team_name category text True ts
            = Inr ([(Success, Skills_added category team_name [])], ts)"
    if "text \<noteq> []" "\<forall>c \<in> set text. isspace c"
    using that by (simp add: add_members_def add_skills_category_def parse_names_blank)
  from team empty all3 blank show ?thesis by blast
qed

theorem empty_input_rejected_witness:
  "\<not> dict_in [] ([] :: teams_dict) \<and> add_team [] True [] = ([(Error, Invalid_team_name)], [])
   \<and> '' '' \<noteq> [] \<and> list_all isspace '' ''
   \<and> add_members ''Alpha'' '' '' True [] = Inr ([(Success, Members_added ''Alpha'' [])], [])"
  using empty_input_rejected [of "[]" "''Alpha''" "''Technical''" "'' ''"]
  by (simp add: dict_in_def dict_keys_def isspace_def)

theorem blank_name_counterexample:
  "list_all isspace '' ''
   \<and> add_team '' '' True []
       = ([(Success, Team_added '' '')], [('' '', \<lparr>members = [], skills = DEFAULT_SKILLS\<rparr>)])
   \<and> add_members ''Alpha'' '' '' True [(''Alpha'', \<lparr>members = [], skills = DEFAULT_SKILLS\<rparr>)]
       = Inr ([(Success, Members_added ''Alpha'' [])],
              [(''Alpha'', \<lparr>members = [], skills = DEFAULT_SKILLS\<rparr>)])"
  by (simp add: isspace_def add_team_def dict_in_def dict_keys_def default_skills_copy_eq
        add_members_def parse_names_def split_def replace_char_def strip_def)

section \<open>Assignment and the keys of the sliders\<close>

lemma map_of_Some_key: "map_of al k = Some v \<Longrightarrow> k \<in> set (map fst al)"
  by (metis map_of_eq_None_iff option.distinct(1) set_map)

lemma set_level_Inr:
  assumes "member_name \<in> set (dict_keys ms)"
  shows "\<exists>ms'. set_level member_name skill level ms = Inr ms'
           \<and> dict_keys ms' = dict_keys ms
           \<and> (\<forall>m k. recorded_level ms' k m =
                 (if m = member_name \<and> k = skill then Some level else recorded_level ms k m))"
proof -
  from assms have "map_of ms member_name \<noteq> None"
    by (simp add: dict_keys_def map_of_eq_None_iff)
  then obtain sk where sk: "map_of ms member_name = Some sk"
    by blast
  let ?ms' = "AList.update member_name (AList.update skill level sk) ms"
  have res: "set_level member_name skill level ms = Inr ?ms'"
    by (simp add: set_level_def sk)
  have keys: "dict_keys ?ms' = dict_keys ms"
    using assms by (simp add: dict_keys_def update_keys)
  have lv: "recorded_level ?ms' k m =
              (if m = member_name \<and> k = skill then Some level else recorded_level ms k m)" for m k
    by (simp add: recorded_level_def update_conv' sk)
  from res keys lv show ?thesis by blast
qed

text \<open>
  Where every slider gets a key of its own, not yet registered in the run, the loops run
  to their end: they register the keys in their order and store, for every member and
  every skill visited, the value of its slider.
\<close>

lemma assign_members_fresh:
  assumes "set names \<subseteq> set (dict_keys ms)"
    and "distinct (map (\<lambda>m. slider_key team_name m skill) names)"
    and "set (map (\<lambda>m. slider_key team_name m skill) names) \<inter> set used = {}"
  shows "\<exists>ms'. assign_members slider team_name skill names used ms
             = Inr (ms', rev (map (\<lambda>m. slider_key team_name m skill) names) @ used)
           \<and> dict_keys ms' = dict_keys ms
           \<and> (\<forall>m k. recorded_level ms' k m =
                 (if k = skill \<and> m \<in> set names
                  then Some (slider 0 10 (slider_key team_name m k))
                  else recorded_level ms k m))"
  using assms
proof (induction names arbitrary: ms used)
  case Nil
  then show ?case by simp
next
  case (Cons n names)
  let ?key = "\<lambda>m. slider_key team_name m skill"
  from Cons.prems(1) have n: "n \<in> set (dict_keys ms)" by simp
  from Cons.prems(3) have fresh: "?key n \<notin> set used" by auto
  then have sl: "st_slider slider 0 10 (?key n) used = Inr (slider 0 10 (?key n), ?key n # used)"
    by (simp add: st_slider_def)
  from set_level_Inr [OF n, of skill "slider 0 10 (?key n)"]
  obtain ms1 where
    s1: "set_level n skill (slider 0 10 (?key n)) ms = Inr ms1"
    and k1: "dict_keys ms1 = dict_keys ms"
    and l1: "\<And>m k. recorded_level ms1 k m =
               (if m = n \<and> k = skill then Some (slider 0 10 (?key n))
                else recorded_level ms k m)"
    by blast
  from Cons.prems(1) k1 have sub: "set names \<subseteq> set (dict_keys ms1)" by simp
  from Cons.prems(2) have dist: "distinct (map ?key names)" by simp
  from Cons.prems(2,3) have disj: "set (map ?key names) \<inter> set (?key n # used) = {}" by auto
  from Cons.IH [OF sub dist disj] obtain ms' where
    s2: "assign_members slider team_name skill names (?key n # used) ms1
           = Inr (ms', rev (map ?key names) @ ?key n # used)"
    and k2: "dict_keys ms' = dict_keys ms1"
    and l2: "\<And>m k. recorded_level ms' k m =
               (if k = skill \<and> m \<in> set names
                then Some (slider 0 10 (slider_key team_name m k))
                else recorded_level ms1 k m)"
    by blast
  have "assign_members slider team_name skill (n # names) used ms
          = Inr (ms', rev (map ?key (n # names)) @ used)"
    by (simp add: sl s1 s2)
  moreover have "dict_keys ms' = dict_keys ms"
    by (simp add: k1 k2)
  moreover have "recorded_level ms' k m =
                 (if k = skill \<and> m \<in> set (n # names)
                  then Some (slider 0 10 (slider_key team_name m k))
                  else recorded_level ms k m)" for m k
    by (auto simp: l1 l2)
  ultimately show ?case by blast
qed

lemma assign_skills_fresh:
  assumes "dict_keys ms = mem"
    and "distinct (concat (map (\<lambda>skill. map (\<lambda>m. slider_key team_name m skill) mem) names))"
    and "set (concat (map (\<lambda>skill. map (\<lambda>m. slider_key team_name m skill) mem) names))
           \<inter> set used = {}"
  shows "\<exists>ms'. assign_skills slider team_name names used ms
             = Inr (ms', rev (concat (map (\<lambda>skill. map (\<lambda>m. slider_key team_name m skill) mem)
                                          names)) @ used)
           \<and> dict_keys ms' = mem
           \<and> (\<forall>m k. recorded_level ms' k m =
                 (if k \<in> set names \<and> m \<in> set mem
                  then Some (slider 0 10 (slider_key team_name m k))
                  else recorded_level ms k m))"
  using assms
proof (induction names arbitrary: ms used)
  case Nil
  then show ?case by simp
next
  case (Cons skill names)
  let ?row = "\<lambda>skill. map (\<lambda>m. slider_key team_name m skill) mem"
  let ?rest = "concat (map ?row names)"
  from Cons.prems(2) have d0: "distinct (?row skill)" and d1: "distinct ?rest"
    and d01: "set (?row skill) \<inter> set ?rest = {}"
    by simp_all
  from Cons.prems(3) have u0: "set (?row skill) \<inter> set used = {}"
    and u1: "set ?rest \<inter> set used = {}"
    by auto
  have sub: "set mem \<subseteq> set (dict_keys ms)" using Cons.prems(1) by simp
  from assign_members_fresh [OF sub d0 u0, of slider]
  obtain ms1 where
    s1: "assign_members slider team_name skill mem used ms = Inr (ms1, rev (?row skill) @ used)"
    and k1: "dict_keys ms1 = dict_keys ms"
    and l1: "\<And>m k. recorded_level ms1 k m =
               (if k = skill \<and> m \<in> set mem
                then Some (slider 0 10 (slider_key team_name m k))
                else recorded_level ms k m)"
    by blast
  have k1': "dict_keys ms1 = mem" using k1 Cons.prems(1) by simp
  have disj: "set ?rest \<inter> set (rev (?row skill) @ used) = {}"
    using d01 u1 by (simp only: set_append set_rev Int_Un_distrib Un_empty) (simp add: Int_commute)
  from Cons.IH [OF k1' d1 disj] obtain ms' where
    s2: "assign_skills slider team_name names (rev (?row skill) @ used) ms1
           = Inr (ms', rev ?rest @ rev (?row skill) @ used)"
    and k2: "dict_keys ms' = mem"
    and l2: "\<And>m k. recorded_level ms' k m =
               (if k \<in> set names \<and> m \<in> set mem
                then Some (slider 0 10 (slider_key team_name m k))
                else recorded_level ms1 k m)"
    by blast
  have "assign_skills slider team_name (skill # names) used ms
          = Inr (ms', rev (concat (map ?row (skill # names))) @ used)"
    using Cons.prems(1) by (simp add: s1 s2)
  moreover have "recorded_level ms' k m =
                 (if k \<in> set (skill # names) \<and> m \<in> set mem
                  then Some (slider 0 10 (slider_key team_name m k))
                  else recorded_level ms k m)" for m k
    by (auto simp: l1 l2)
  ultimately show ?case using k2 by blast
qed

lemma assign_categories_fresh:
  assumes "dict_keys ms = mem"
    and "distinct (concat (map (\<lambda>skill. map (\<lambda>m. slider_key team_name m skill) mem)
                             (concat (map snd cats))))"
    and "set (concat (map (\<lambda>skill. map (\<lambda>m. slider_key team_name m skill) mem)
                        (concat (map snd cats)))) \<inter> set used = {}"
  shows "\<exists>ms'. assign_categories slider team_name cats used ms
             = Inr (ms', rev (concat (map (\<lambda>skill. map (\<lambda>m. slider_key team_name m skill) mem)
                                          (concat (map snd cats)))) @ used)
           \<and> dict_keys ms' = mem
           \<and> (\<forall>m k. recorded_level ms' k m =
                 (if k \<in> set (concat (map snd cats)) \<and> m \<in> set mem
                  then Some (slider 0 10 (slider_key team_name m k))
                  else recorded_level ms k m))"
  using assms
proof (induction cats arbitrary: ms used)
  case Nil
  then show ?case by simp
next
  case (Cons p cats)
  obtain category names where p: "p = (category, names)" by (cases p)
  let ?row = "\<lambda>skill. map (\<lambda>m. slider_key team_name m skill) mem"
  let ?first = "concat (map ?row names)"
  let ?rest = "concat (map ?row (concat (map snd cats)))"
  have split: "concat (map ?row (concat (map snd (p # cats)))) = ?first @ ?rest"
    by (simp add: p)
  from Cons.prems(2) have d0: "distinct ?first" and d1: "distinct ?rest"
    and d01: "set ?first \<inter> set ?rest = {}"
    unfolding split by simp_all
  from Cons.prems(3) have "(set ?first \<union> set ?rest) \<inter> set used = {}"
    unfolding split by simp
  then have u0: "set ?first \<inter> set used = {}" and u1: "set ?rest \<inter> set used = {}"
    by blast+
  from assign_skills_fresh [OF Cons.prems(1) d0 u0, of slider]
  obtain ms1 where
    s1: "assign_skills slider team_name names used ms = Inr (ms1, rev ?first @ used)"
    and k1: "dict_keys ms1 = mem"
    and l1: "\<And>m k. recorded_level ms1 k m =
               (if k \<in> set names \<and> m \<in> set mem
                then Some (slider 0 10 (slider_key team_name m k))
                else recorded_level ms k m)"
    by blast
  have disj: "set ?rest \<inter> set (rev ?first @ used) = {}"
    using d01 u1 by (simp only: set_append set_rev Int_Un_distrib Un_empty) (simp add: Int_commute)
  from Cons.IH [OF k1 d1 disj] obtain ms' where
    s2: "assign_categories slider team_name cats (rev ?first @ used) ms1
           = Inr (ms', rev ?rest @ rev ?first @ used)"
    and k2: "dict_keys ms' = mem"
    and l2: "\<And>m k. recorded_level ms' k m =
               (if k \<in> set (concat (map snd cats)) \<and> m \<in> set mem
                then Some (slider 0 10 (slider_key team_name m k))
                else recorded_level ms1 k m)"
    by blast
  have "assign_categories slider team_name (p # cats) used ms
          = Inr (ms', rev (concat (map ?row (concat (map snd (p # cats))))) @ used)"
    by (simp add: p s1 s2)
  moreover have "recorded_level ms' k m =
                 (if k \<in> set (concat (map snd (p # cats))) \<and> m \<in> set mem
                  then Some (slider 0 10 (slider_key team_name m k))
                  else recorded_level ms k m)" for m k
    by (auto simp: p l1 l2)
  ultimately show ?case using k2 by blast
qed

lemma assign_competency_fresh_keys:
  assumes "map_of ts team_name = Some td"
    and "list_ex (\<lambda>names. names \<noteq> []) (map snd (skills td))"
    and "distinct (assignment_keys team_name td)"
    and "set (assignment_keys team_name td) \<inter> set used = {}"
  shows "\<exists>ts' td'.
           assign_competency slider team_name used ts
             = Inr ([], ts', rev (assignment_keys team_name td) @ used)
         \<and> map_of ts' team_name = Some td'
         \<and> dict_keys (members td') = dict_keys (members td)
         \<and> skills td' = skills td
         \<and> (\<forall>member \<in> set (dict_keys (members td')).
              \<forall>(category, names) \<in> set (skills td'). \<forall>skill \<in> set names.
                recorded_level (members td') skill member
                  = Some (slider 0 10 (slider_key team_name member skill)))"
proof -
  from assign_categories_fresh [OF refl assms(3,4) [unfolded assignment_keys_def], of slider]
  obtain ms' where
    run: "assign_categories slider team_name (skills td) used (members td)
            = Inr (ms', rev (assignment_keys team_name td) @ used)"
    and keys: "dict_keys ms' = dict_keys (members td)"
    and lv: "\<And>m k. recorded_level ms' k m =
               (if k \<in> set (concat (map snd (skills td))) \<and> m \<in> set (dict_keys (members td))
                then Some (slider 0 10 (slider_key team_name m k))
                else recorded_level (members td) k m)"
    unfolding assignment_keys_def by blast
  let ?td' = "td\<lparr>members := ms'\<rparr>"
  let ?ts' = "AList.update team_name ?td' ts"
  have res: "assign_competency slider team_name used ts
               = Inr ([], ?ts', rev (assignment_keys team_name td) @ used)"
    using assms(1,2) by (simp add: assign_competency_def run)
  have look: "map_of ?ts' team_name = Some ?td'"
    by (simp add: update_conv')
  have all: "recorded_level (members ?td') skill member
               = Some (slider 0 10 (slider_key team_name member skill))"
    if "member \<in> set (dict_keys (members ?td'))" "(category, names) \<in> set (skills ?td')"
       "skill \<in> set names" for member category names skill
  proof -
    from that(2,3) have "skill \<in> set (concat (map snd (skills td)))" by force
    moreover from that(1) have "member \<in> set (dict_keys (members td))" by (simp add: keys)
    ultimately show ?thesis by (simp add: lv)
  qed
  from res look keys all show ?thesis
    by (intro exI [of _ ?ts'] exI [of _ ?td']) auto
qed

lemma parse_names_Python: "parse_names ''Python'' = [''Python'']"
  by (simp add: parse_names_def split_def replace_char_def strip_def isspace_def)

text \<open>
  A state in which one skill stands in two categories is within reach: add the team
  Alpha, add the member Ana, add the skill Python to the category Domain. The test of
  \<^verbatim>\<open>add_skills\<close> looks for the new name in the list of its own category only.
\<close>

lemma duplicate_skill_reachable:
  "reachable
     [(''Alpha'', \<lparr>members = [(''Ana'', [])],
        skills = [(''Technical'', [''Databricks'', ''Python'', ''NodeJS'', ''SQL'', ''Gitlab'']),
                  (''Domain'', [''LM'', ''SM'', ''in vitro'', ''in vivo'', ''target'', ''Python'']),
                  (''Operational'', [''SAFe'', ''Collab'', ''Comms'', ''SNOW'',
                                     ''Monitoring and Tracking''])]\<rparr>)]"
proof -
  let ?ts1 = "[(''Alpha'', \<lparr>members = [], skills = DEFAULT_SKILLS\<rparr>)]"
  let ?ts2 = "[(''Alpha'', \<lparr>members = [(''Ana'', [])], skills = DEFAULT_SKILLS\<rparr>)]"
  let ?ts3 = "[(''Alpha'', \<lparr>members = [(''Ana'', [])],
        skills = [(''Technical'', [''Databricks'', ''Python'', ''NodeJS'', ''SQL'', ''Gitlab'']),
                  (''Domain'', [''LM'', ''SM'', ''in vitro'', ''in vivo'', ''target'', ''Python'']),
                  (''Operational'', [''SAFe'', ''Collab'', ''Comms'', ''SNOW'',
                                     ''Monitoring and Tracking''])]\<rparr>)]"
  let ?ui = "\<lambda>category. if category = ''Domain'' then (''Python'', True) else ([], False)"
  have r0: "reachable []"
    using reachable.start by (simp add: init_session_state_def)
  have "snd (add_team ''Alpha'' True []) = ?ts1"
    by (simp add: add_team_def dict_in_def dict_keys_def default_skills_copy_eq)
  with reachable.team_added [OF r0, of "''Alpha''" True] have r1: "reachable ?ts1"
    by simp
  have e2: "add_members ''Alpha'' ''Ana'' True ?ts1
              = Inr ([(Success, Members_added ''Alpha'' [''Ana''])], ?ts2)"
    by (simp add: add_members_def parse_names_Ana dict_in_def dict_keys_def)
  from reachable.members_added [OF r1 e2] have r2: "reachable ?ts2" .
  have e3: "add_skills ''Alpha'' ?ui ?ts2
              = Inr ([(Success, Skills_added ''Domain'' ''Alpha'' [''Python''])], ?ts3)"
    by (simp add: add_skills_def add_skills_category_def parse_names_Python DEFAULT_SKILLS_def
          Let_def)
  from reachable.skills_added [OF r2 e3] show ?thesis .
qed

text \<open>
  C3 at that state, with every slider at its default 0 and the keys of the text input
  and the four text areas of the run registered: the slider of Ana and Python is created
  for the category Technical and a second time for the category Domain. The second
  creation raises \<^verbatim>\<open>StreamlitDuplicateElementKey\<close>; the levels of the five Technical
  and the five first Domain skills are stored by then, and Ana has no level for any of
  the Operational skills.
\<close>

theorem assign_competency_duplicate_key:
  "assign_competency (\<lambda>lo hi key. lo) ''Alpha''
     [''add_skills_Alpha_Operational'', ''add_skills_Alpha_Domain'',
      ''add_skills_Alpha_Technical'', ''add_members_Alpha'', ''add_team'']
     [(''Alpha'', \<lparr>members = [(''Ana'', [])],
        skills = [(''Technical'', [''Databricks'', ''Python'', ''NodeJS'', ''SQL'', ''Gitlab'']),
                  (''Domain'', [''LM'', ''SM'', ''in vitro'', ''in vivo'', ''target'', ''Python'']),
                  (''Operational'', [''SAFe'', ''Collab'', ''Comms'', ''SNOW'',
                                     ''Monitoring and Tracking''])]\<rparr>)]
   = Inl (StreamlitDuplicateElementKey ''Alpha_Ana_Python'',
       [(''Alpha'', \<lparr>members = [(''Ana'',
           [(''Databricks'', 0), (''Python'', 0), (''NodeJS'', 0), (''SQL'', 0), (''Gitlab'', 0),
            (''LM'', 0), (''SM'', 0), (''in vitro'', 0), (''in vivo'', 0), (''target'', 0)])],
          skills = [(''Technical'', [''Databricks'', ''Python'', ''NodeJS'', ''SQL'', ''Gitlab'']),
                    (''Domain'', [''LM'', ''SM'', ''in vitro'', ''in vivo'', ''target'', ''Python'']),
                    (''Operational'', [''SAFe'', ''Collab'', ''Comms'', ''SNOW'',
                                       ''Monitoring and Tracking''])]\<rparr>)])
   \<and> recorded_level
         [(''Ana'',
           [(''Databricks'', 0), (''Python'', 0), (''NodeJS'', 0), (''SQL'', 0), (''Gitlab'', 0),
            (''LM'', 0), (''SM'', 0), (''in vitro'', 0), (''in vivo'', 0), (''target'', 0)])]
         ''SAFe'' ''Ana'' = None"
  by (simp add: assign_competency_def set_level_def dict_keys_def st_slider_def slider_key_def
        recorded_level_def)

section \<open>Levels stay within bounds\<close>

lemma update_list_all:
  "list_all Q al \<Longrightarrow> Q (k, v) \<Longrightarrow> list_all Q (AList.update k v al)"
  by (induction al) auto

lemma update_dict_ok: "dict_ok al \<Longrightarrow> dict_ok (AList.update k v al)"
  by (simp add: dict_ok_def dict_keys_def distinct_update)

lemma lookup_list_all: "list_all Q al \<Longrightarrow> map_of al k = Some v \<Longrightarrow> Q (k, v)"
  by (auto simp: list_all_iff dest: map_of_SomeD)

lemma skills_inv_update:
  "skills_inv sk \<Longrightarrow> 0 \<le> level \<Longrightarrow> level \<le> 10 \<Longrightarrow> skills_inv (AList.update skill level sk)"
  by (simp add: skills_inv_def skills_in_range_def update_dict_ok update_list_all)

lemma members_inv_update:
  "members_inv ms \<Longrightarrow> skills_inv sk \<Longrightarrow> members_inv (AList.update member_name sk ms)"
  by (simp add: members_inv_def update_dict_ok update_list_all)

lemma members_inv_lookup: "members_inv ms \<Longrightarrow> map_of ms member_name = Some sk \<Longrightarrow> skills_inv sk"
  using lookup_list_all [of "\<lambda>(member_name, sk). skills_inv sk" ms member_name sk]
  by (simp add: members_inv_def)

lemma state_inv_update:
  "state_inv ts \<Longrightarrow> members_inv (members td) \<Longrightarrow> state_inv (AList.update team_name td ts)"
  by (simp add: state_inv_def update_dict_ok update_list_all)

lemma state_inv_lookup: "state_inv ts \<Longrightarrow> map_of ts team_name = Some td \<Longrightarrow> members_inv (members td)"
  using lookup_list_all [of "\<lambda>(team_name, td). members_inv (members td)" ts team_name td]
  by (simp add: state_inv_def)

lemma set_level_inv:
  assumes "members_inv ms" and "0 \<le> level" and "level \<le> 10"
    and "set_level member_name skill level ms = Inr ms'"
  shows "members_inv ms'"
proof (cases "map_of ms member_name")
  case None
  with assms(4) show ?thesis by (simp add: set_level_def)
next
  case (Some sk)
  with assms(4) have ms': "ms' = AList.update member_name (AList.update skill level sk) ms"
    by (simp add: set_level_def)
  from members_inv_lookup [OF assms(1) Some] have "skills_inv sk" .
  then have "skills_inv (AList.update skill level sk)"
    using assms(2,3) by (rule skills_inv_update)
  with assms(1) show ?thesis
    unfolding ms' by (rule members_inv_update)
qed

lemma slider_bounds:
  "slider_in_range slider \<Longrightarrow> 0 \<le> slider 0 10 key \<and> slider 0 10 key \<le> 10"
  by (simp add: slider_in_range_def)

lemma assign_members_inv:
  assumes "slider_in_range slider"
  shows "members_inv ms \<Longrightarrow>
           members_inv (members_after (assign_members slider team_name skill names used ms))"
proof (induction names arbitrary: ms used)
  case Nil
  then show ?case by (simp add: members_after_def)
next
  case (Cons n names)
  let ?key = "slider_key team_name n skill"
  show ?case
  proof (cases "?key \<in> set used")
    case True
    with Cons.prems show ?thesis by (simp add: st_slider_def members_after_def)
  next
    case False
    show ?thesis
    proof (cases "set_level n skill (slider 0 10 ?key) ms")
      case (Inl e)
      with False Cons.prems show ?thesis by (simp add: st_slider_def members_after_def)
    next
      case (Inr ms1)
      from slider_bounds [OF assms] Cons.prems Inr have "members_inv ms1"
        by (blast intro: set_level_inv)
      then have "members_inv
            (members_after (assign_members slider team_name skill names (?key # used) ms1))"
        by (rule Cons.IH)
      with False Inr show ?thesis by (simp add: st_slider_def)
    qed
  qed
qed

lemma assign_skills_inv:
  assumes "slider_in_range slider"
  shows "members_inv ms \<Longrightarrow>
           members_inv (members_after (assign_skills slider team_name names used ms))"
proof (induction names arbitrary: ms used)
  case Nil
  then show ?case by (simp add: members_after_def)
next
  case (Cons skill names)
  note first = assign_members_inv [OF assms Cons.prems, of team_name skill "dict_keys ms" used]
  show ?case
  proof (cases "assign_members slider team_name skill (dict_keys ms) used ms")
    case (Inl raised)
    with first show ?thesis by simp
  next
    case (Inr finished)
    obtain ms1 used1 where finished: "finished = (ms1, used1)" by (cases finished)
    from first Inr have "members_inv ms1" by (simp add: finished members_after_def)
    then have "members_inv (members_after (assign_skills slider team_name names used1 ms1))"
      by (rule Cons.IH)
    with Inr show ?thesis by (simp add: finished)
  qed
qed

lemma assign_categories_inv:
  assumes "slider_in_range slider"
  shows "members_inv ms \<Longrightarrow>
           members_inv (members_after (assign_categories slider team_name cats used ms))"
proof (induction cats arbitrary: ms used)
  case Nil
  then show ?case by (simp add: members_after_def)
next
  case (Cons p cats)
  obtain category names where p: "p = (category, names)" by (cases p)
  note first = assign_skills_inv [OF assms Cons.prems, of team_name names used]
  show ?case
  proof (cases "assign_skills slider team_name names used ms")
    case (Inl raised)
    with first show ?thesis by (simp add: p)
  next
    case (Inr finished)
    obtain ms1 used1 where finished: "finished = (ms1, used1)" by (cases finished)
    from first Inr have "members_inv ms1" by (simp add: finished members_after_def)
    then have "members_inv (members_after (assign_categories slider team_name cats used1 ms1))"
      by (rule Cons.IH)
    with Inr show ?thesis by (simp add: p finished)
  qed
qed

lemma assign_competency_inv:
  assumes "slider_in_range slider" and "state_inv ts"
  shows "state_inv (teams_after (assign_competency slider team_name used ts))"
proof (cases "map_of ts team_name")
  case None
  with assms(2) show ?thesis by (simp add: assign_competency_def teams_after_def)
next
  case (Some td)
  show ?thesis
  proof (cases "list_ex (\<lambda>names. names \<noteq> []) (map snd (skills td))")
    case False
    with Some assms(2) show ?thesis by (simp add: assign_competency_def teams_after_def)
  next
    case True
    let ?r = "assign_categories slider team_name (skills td) used (members td)"
    from state_inv_lookup [OF assms(2) Some] have "members_inv (members td)" .
    from assign_categories_inv [OF assms(1) this] have "members_inv (members_after ?r)" .
    with assms(2) have inv: "state_inv (AList.update team_name (td\<lparr>members := members_after ?r\<rparr>) ts)"
      by (simp add: state_inv_update)
    have "teams_after (assign_competency slider team_name used ts)
            = AList.update team_name (td\<lparr>members := members_after ?r\<rparr>) ts"
      using Some True
      by (simp add: assign_competency_def teams_after_def members_after_def
            split: sum.splits prod.splits)
    with inv show ?thesis by simp
  qed
qed

lemma add_team_inv: "state_inv ts \<Longrightarrow> state_inv (snd (add_team team_name button ts))"
  by (simp add: add_team_def state_inv_update members_inv_def dict_ok_def dict_keys_def)

lemma add_members_loop_inv:
  "state_inv ts \<Longrightarrow> add_members_loop team_name names ts = Inr ts' \<Longrightarrow> state_inv ts'"
proof (induction names arbitrary: ts)
  case Nil
  then show ?case by simp
next
  case (Cons n names)
  show ?case
  proof (cases "n \<noteq> [] \<and> map_of ts team_name \<noteq> None
                 \<and> \<not> dict_in n (members (the (map_of ts team_name)))")
    case True
    then obtain td where td: "map_of ts team_name = Some td" by blast
    let ?ts1 = "AList.update team_name (td\<lparr>members := AList.update n [] (members td)\<rparr>) ts"
    from True td Cons.prems(2) have run: "add_members_loop team_name names ?ts1 = Inr ts'"
      by simp
    have "skills_inv []"
      by (simp add: skills_inv_def skills_in_range_def dict_ok_def dict_keys_def)
    with state_inv_lookup [OF Cons.prems(1) td]
    have "members_inv (AList.update n [] (members td))"
      by (rule members_inv_update)
    with Cons.prems(1) have "state_inv ?ts1"
      by (simp add: state_inv_update)
    then show ?thesis using run by (rule Cons.IH)
  next
    case False
    with Cons.prems(2) have "add_members_loop team_name names ts = Inr ts'"
      by (auto split: option.splits if_splits)
    with Cons.prems(1) show ?thesis by (rule Cons.IH)
  qed
qed

lemma add_members_inv:
  "state_inv ts \<Longrightarrow> add_members team_name members_input button ts = Inr (msgs, ts')
     \<Longrightarrow> state_inv ts'"
  by (auto simp: add_members_def Let_def split: if_splits sum.splits
        intro: add_members_loop_inv)

lemma add_skills_loop_inv:
  "state_inv ts \<Longrightarrow> add_skills_loop team_name category names ts = Inr ts' \<Longrightarrow> state_inv ts'"
proof (induction names arbitrary: ts)
  case Nil
  then show ?case by simp
next
  case (Cons n names)
  show ?case
  proof (cases "map_of ts team_name")
    case None
    with Cons.prems(2) have "add_skills_loop team_name category names ts = Inr ts'"
      by (auto split: if_splits)
    with Cons.prems(1) show ?thesis by (rule Cons.IH)
  next
    case (Some td)
    have upd: "state_inv (AList.update team_name (td\<lparr>skills := sk'\<rparr>) ts)" for sk'
      using Cons.prems(1) state_inv_lookup [OF Cons.prems(1) Some]
      by (simp add: state_inv_update)
    from Cons.prems(2) Some obtain ts1 where
      "state_inv ts1" and "add_skills_loop team_name category names ts1 = Inr ts'"
      using Cons.prems(1) upd by (auto split: if_splits option.splits)
    then show ?thesis by (rule Cons.IH)
  qed
qed

lemma add_skills_category_inv:
  "state_inv ts \<Longrightarrow> add_skills_category team_name category skills_input button ts = Inr (msgs, ts')
     \<Longrightarrow> state_inv ts'"
  by (auto simp: add_skills_category_def Let_def split: if_splits sum.splits
        intro: add_skills_loop_inv)

lemma add_skills_categories_inv:
  "state_inv ts \<Longrightarrow> add_skills_categories team_name ui cats ts = Inr (msgs, ts')
     \<Longrightarrow> state_inv ts'"
proof (induction cats arbitrary: ts msgs)
  case Nil
  then show ?case by simp
next
  case (Cons category cats)
  from Cons.prems(2) obtain m1 ts1 m2 where
    s1: "add_skills_category team_name category (fst (ui category)) (snd (ui category)) ts
           = Inr (m1, ts1)"
    and s2: "add_skills_categories team_name ui cats ts1 = Inr (m2, ts')"
    by (auto split: sum.splits prod.splits)
  from add_skills_category_inv [OF Cons.prems(1) s1] have "state_inv ts1" .
  then show ?case using s2 by (rule Cons.IH)
qed

lemma delete_team_inv:
  assumes "state_inv ts" and "delete_team team_name ts = Inr ts'"
  shows "state_inv ts'"
proof -
  from assms(2) have ts': "ts' = AList.delete team_name ts"
    by (simp add: delete_team_def split: if_splits)
  from assms(1) have "dict_ok (AList.delete team_name ts)"
    by (simp add: state_inv_def dict_ok_def dict_keys_def distinct_delete)
  moreover from assms(1)
  have "list_all (\<lambda>(team_name, td). members_inv (members td)) (AList.delete team_name ts)"
    by (simp add: state_inv_def AList.delete_eq list_all_iff)
  ultimately show ?thesis by (simp add: state_inv_def ts')
qed

lemma reachable_inv: "reachable ts \<Longrightarrow> state_inv ts"
proof (induction rule: reachable.induct)
  case start
  then show ?case
    by (simp add: init_session_state_def state_inv_def dict_ok_def dict_keys_def)
next
  case (team_added ts team_name button)
  then show ?case by (simp add: add_team_inv)
next
  case (members_added ts team_name members_input button msgs ts')
  then show ?case by (blast intro: add_members_inv)
next
  case (skills_added ts team_name ui msgs ts')
  then show ?case unfolding add_skills_def by (blast intro: add_skills_categories_inv)
next
  case (competency_assigned ts slider team_name used msgs ts' used')
  from assign_competency_inv [OF competency_assigned(2) competency_assigned(4), of team_name used]
  show ?case by (simp add: competency_assigned(3) teams_after_def)
next
  case (assignment_raised ts slider team_name used e ts')
  from assign_competency_inv [OF assignment_raised(2) assignment_raised(4), of team_name used]
  show ?case by (simp add: assignment_raised(3) teams_after_def)
next
  case (team_deleted ts team_name ts')
  then show ?case by (blast intro: delete_team_inv)
qed

lemma state_inv_teams_ok: "state_inv ts \<Longrightarrow> teams_ok ts"
  by (auto simp: state_inv_def teams_ok_def members_inv_def skills_inv_def list_all_iff)

lemma state_inv_levels: "state_inv ts \<Longrightarrow> levels_in_range ts"
  by (auto simp: state_inv_def levels_in_range_def members_inv_def skills_inv_def list_all_iff)

lemma score_in_range:
  assumes "levels_in_range ts" and "score_of ts key = Some level"
  shows "0 \<le> level \<and> level \<le> 10"
proof -
  obtain t m k where key: "key = (t, m, k)" by (cases key)
  from assms(2) obtain td sk where
    td: "map_of ts t = Some td" and sk: "map_of (members td) m = Some sk"
    and l: "map_of sk k = Some level"
    by (auto simp: key score_of_def recorded_level_def split: option.splits)
  from lookup_list_all [OF assms(1) [unfolded levels_in_range_def] td]
  have "list_all (\<lambda>(member_name, sk). skills_in_range sk) (members td)" by simp
  from lookup_list_all [OF this sk] have "skills_in_range sk" by simp
  from lookup_list_all [OF this [unfolded skills_in_range_def] l] show ?thesis by simp
qed

lemma recorded_levels_in_range:
  assumes "levels_in_range ts" and "map_of ts team_name = Some td"
    and "l \<in> set (recorded_levels (members td) skill)"
  shows "0 \<le> l \<and> l \<le> 10"
proof -
  from assms(3) obtain m where "recorded_level (members td) skill m = Some l"
    by (auto simp: recorded_levels_def List.map_filter_def)
  with assms(2) have "score_of ts (team_name, m, skill) = Some l"
    by (simp add: score_of_def)
  with assms(1) show ?thesis by (rule score_in_range)
qed

lemma reachable_average_bounds:
  assumes "reachable ts" and "map_of ts team_name = Some td"
    and "recorded_levels (members td) skill \<noteq> []"
  shows "0 \<le> exact_average (recorded_levels (members td) skill)
         \<and> exact_average (recorded_levels (members td) skill) \<le> 10"
proof -
  from assms(1) have "levels_in_range ts"
    by (simp add: reachable_inv state_inv_levels)
  then have "\<forall>l \<in> set (recorded_levels (members td) skill). 0 \<le> l \<and> l \<le> 10"
    using recorded_levels_in_range [OF _ assms(2), of _ skill] by simp
  with assms(3) show ?thesis by (rule exact_average_bounds)
qed

lemma update_same_keys:
  "map fst v = map fst v' \<Longrightarrow>
     map (\<lambda>(m, sk). dict_keys sk) (AList.update k v al)
       = map (\<lambda>(m, sk). dict_keys sk) (AList.update k v' al)"
  by (induction al) (auto simp: dict_keys_def)

lemma set_level_twice:
  assumes "set_level member_name skill l1 ms = Inr ms1"
  shows "set_level member_name skill l2 ms1 = set_level member_name skill l2 ms
         \<and> (\<exists>ms2. set_level member_name skill l2 ms1 = Inr ms2
               \<and> recorded_level ms2 skill member_name = Some l2
               \<and> dict_keys ms2 = dict_keys ms1
               \<and> map (\<lambda>(m, sk). dict_keys sk) ms2 = map (\<lambda>(m, sk). dict_keys sk) ms1)"
proof -
  from assms obtain sk where sk: "map_of ms member_name = Some sk"
    and ms1: "ms1 = AList.update member_name (AList.update skill l1 sk) ms"
    by (auto simp: set_level_def split: option.splits)
  let ?ms2 = "AList.update member_name (AList.update skill l2 sk) ms"
  have look1: "map_of ms1 member_name = Some (AList.update skill l1 sk)"
    by (simp add: ms1 update_conv')
  have second: "set_level member_name skill l2 ms1 = Inr ?ms2"
    by (simp add: set_level_def look1) (simp add: ms1)
  have direct: "set_level member_name skill l2 ms = Inr ?ms2"
    by (simp add: set_level_def sk)
  have lv: "recorded_level ?ms2 skill member_name = Some l2"
    by (simp add: recorded_level_def update_conv')
  have "map fst (AList.update skill l2 sk) = map fst (AList.update skill l1 sk)"
    by (simp add: update_keys)
  then have inner: "map (\<lambda>(m, sk). dict_keys sk) ?ms2 = map (\<lambda>(m, sk). dict_keys sk) ms1"
    unfolding ms1 by (rule update_same_keys)
  have outer: "dict_keys ?ms2 = dict_keys ms1"
    by (simp add: ms1 dict_keys_def update_keys)
  from second direct lv inner outer show ?thesis by simp
qed

text \<open>
  C8. In every state that a session can reach, every stored level lies between 0 and
  10, whether it is read from the lists of the state or through the score mapping, and
  no team, member or skill has two entries; so it is after any further assignment of
  competencies through sliders, whether it runs to its end or a slider raises. Assigning a level to a member and a skill and then a
  second level to the same member and skill gives the state that assigning the second
  level alone gives: the second level is the recorded one, and the members and each
  member's skills are the same lists of keys as after the first assignment, with no
  entry added.
\<close>

theorem levels_bounded_and_overwritten:
  assumes "reachable ts"
  shows "levels_in_range ts \<and> teams_ok ts
         \<and> (\<forall>key level. score_of ts key = Some level \<longrightarrow> 0 \<le> level \<and> level \<le> 10)
         \<and> (slider_in_range slider
               \<and> assign_competency slider team_name used ts = Inr (msgs, ts', used')
               \<longrightarrow> levels_in_range ts' \<and> teams_ok ts')
         \<and> (slider_in_range slider
               \<and> assign_competency slider team_name used ts = Inl (e, ts'')
               \<longrightarrow> levels_in_range ts'' \<and> teams_ok ts'')
         \<and> (set_level member_name skill l1 ms = Inr ms1 \<longrightarrow>
               set_level member_name skill l2 ms1 = set_level member_name skill l2 ms
               \<and> (\<exists>ms2. set_level member_name skill l2 ms1 = Inr ms2
                     \<and> recorded_level ms2 skill member_name = Some l2
                     \<and> dict_keys ms2 = dict_keys ms1
                     \<and> map (\<lambda>(m, sk). dict_keys sk) ms2 = map (\<lambda>(m, sk). dict_keys sk) ms1))"
proof -
  from assms have inv: "state_inv ts" by (rule reachable_inv)
  then have now: "levels_in_range ts" "teams_ok ts"
    by (simp_all add: state_inv_levels state_inv_teams_ok)
  have scores: "\<forall>key level. score_of ts key = Some level \<longrightarrow> 0 \<le> level \<and> level \<le> 10"
    using score_in_range [OF now(1)] by blast
  have after: "levels_in_range ts' \<and> teams_ok ts'"
    if "slider_in_range slider"
       "assign_competency slider team_name used ts = Inr (msgs, ts', used')"
    using assign_competency_inv [OF that(1) inv, of team_name used]
    by (simp add: that(2) teams_after_def state_inv_levels state_inv_teams_ok)
  have raised: "levels_in_range ts'' \<and> teams_ok ts''"
    if "slider_in_range slider" "assign_competency slider team_name used ts = Inl (e, ts'')"
    using assign_competency_inv [OF that(1) inv, of team_name used]
    by (simp add: that(2) teams_after_def state_inv_levels state_inv_teams_ok)
  from now scores after raised set_level_twice [of member_name skill l1 ms ms1 l2]
  show ?thesis by blast
qed

theorem levels_bounded_and_overwritten_witness:
  "reachable
     [(''Alpha'', \<lparr>members = [(''Ana'',
         [(''Databricks'', 7), (''Python'', 7), (''NodeJS'', 7), (''SQL'', 7), (''Gitlab'', 7),
          (''LM'', 7), (''SM'', 7), (''in vitro'', 7), (''in vivo'', 7), (''target'', 7),
          (''SAFe'', 7), (''Collab'', 7), (''Comms'', 7), (''SNOW'', 7),
          (''Monitoring and Tracking'', 7)])], skills = DEFAULT_SKILLS\<rparr>)]
   \<and> levels_in_range
     [(''Alpha'', \<lparr>members = [(''Ana'',
         [(''Databricks'', 7), (''Python'', 7), (''NodeJS'', 7), (''SQL'', 7), (''Gitlab'', 7),
          (''LM'', 7), (''SM'', 7), (''in vitro'', 7), (''in vivo'', 7), (''target'', 7),
          (''SAFe'', 7), (''Collab'', 7), (''Comms'', 7), (''SNOW'', 7),
          (''Monitoring and Tracking'', 7)])], skills = DEFAULT_SKILLS\<rparr>)]
   \<and> set_level ''Ana'' ''Python'' 7 [(''Ana'', [(''SQL'', 2)])]
       = Inr [(''Ana'', [(''SQL'', 2), (''Python'', 7)])]
   \<and> set_level ''Ana'' ''Python'' 3 [(''Ana'', [(''SQL'', 2), (''Python'', 7)])]
       = Inr [(''Ana'', [(''SQL'', 2), (''Python'', 3)])]"
proof -
  let ?slider = "\<lambda>(lo :: int) (hi :: int) (key :: string). max lo (min hi 7)"
  let ?ts1 = "[(''Alpha'', \<lparr>members = [], skills = DEFAULT_SKILLS\<rparr>)]"
  let ?ts2 = "[(''Alpha'', \<lparr>members = [(''Ana'', [])], skills = DEFAULT_SKILLS\<rparr>)]"
  let ?ts3 = "[(''Alpha'', \<lparr>members = [(''Ana'',
         [(''Databricks'', 7), (''Python'', 7), (''NodeJS'', 7), (''SQL'', 7), (''Gitlab'', 7),
          (''LM'', 7), (''SM'', 7), (''in vitro'', 7), (''in vivo'', 7), (''target'', 7),
          (''SAFe'', 7), (''Collab'', 7), (''Comms'', 7), (''SNOW'', 7),
          (''Monitoring and Tracking'', 7)])], skills = DEFAULT_SKILLS\<rparr>)]"
  have r0: "reachable []"
    using reachable.start by (simp add: init_session_state_def)
  have "snd (add_team ''Alpha'' True []) = ?ts1"
    by (simp add: add_team_def dict_in_def dict_keys_def default_skills_copy_eq)
  with reachable.team_added [OF r0, of "''Alpha''" True] have r1: "reachable ?ts1"
    by simp
  have e2: "add_members ''Alpha'' ''Ana'' True ?ts1
              = Inr ([(Success, Members_added ''Alpha'' [''Ana''])], ?ts2)"
    by (simp add: add_members_def parse_names_Ana dict_in_def dict_keys_def)
  from reachable.members_added [OF r1 e2] have r2: "reachable ?ts2" .
  have sl: "slider_in_range ?slider"
    by (simp add: slider_in_range_def)
  have "\<exists>used'. assign_competency ?slider ''Alpha'' [] ?ts2 = Inr ([], ?ts3, used')"
    by (simp add: assign_competency_def DEFAULT_SKILLS_def set_level_def dict_keys_def
          st_slider_def slider_key_def)
  then obtain used' where e3: "assign_competency ?slider ''Alpha'' [] ?ts2 = Inr ([], ?ts3, used')"
    by blast
  from reachable.competency_assigned [OF r2 sl e3] have r3: "reachable ?ts3" .
  have first: "set_level ''Ana'' ''Python'' 7 [(''Ana'', [(''SQL'', 2)])]
                 = Inr [(''Ana'', [(''SQL'', 2), (''Python'', 7)])]"
    by (simp add: set_level_def)
  have alone: "set_level ''Ana'' ''Python'' 3 [(''Ana'', [(''SQL'', 2)])]
                 = Inr [(''Ana'', [(''SQL'', 2), (''Python'', 3)])]"
    by (simp add: set_level_def)
  from levels_bounded_and_overwritten [OF r3, of _ _ _ _ _ _ _ _ "''Ana''" "''Python''" 7
      "[(''Ana'', [(''SQL'', 2)])]" "[(''Ana'', [(''SQL'', 2), (''Python'', 7)])]" 3]
  have "levels_in_range ?ts3"
    and "set_level ''Ana'' ''Python'' 3 [(''Ana'', [(''SQL'', 2), (''Python'', 7)])]
           = set_level ''Ana'' ''Python'' 3 [(''Ana'', [(''SQL'', 2)])]"
    using first by blast+
  with r3 first alone show ?thesis by simp
qed

end
